theory Spec2Isabelle
  imports Main "HOL-Library.Word"
begin

unbundle bit_operations_syntax

section \<open>Physical memory and the buddy allocator (gecko/pmm.c)\<close>

text \<open>
  Physical memory is one flat store of 64-bit cells indexed by their byte address;
  the kernel runs identity mapped, so a pointer is a physical address and \<open>NULL\<close> is
  the address 0 (a load or store through it reaches the cell at that address).
  All pointers to structures that the code dereferences are 8-byte aligned; a single
  byte is one lane of the cell that holds it.  A \<open>memory_block_t\<close> at
  address \<open>b\<close> keeps \<open>next\<close> in the cell \<open>b\<close>, \<open>order\<close> in the low half of the
  cell \<open>b + 8\<close> and \<open>flags\<close> in its high half.
\<close>

type_synonym addr = "64 word"
type_synonym memory = "addr \<Rightarrow> 64 word"

definition MAX_ORDER :: nat where
  "MAX_ORDER = 20"

definition PAGE_SIZE :: "32 word" where
  "PAGE_SIZE = 4096"

definition MEMORY_AVAILABLE :: "32 word" where
  "MEMORY_AVAILABLE = 0"

definition MAX_MEMORY_REGIONS :: "32 word" where
  "MAX_MEMORY_REGIONS = 32"

record memory_map_entry =
  entry_base :: "64 word"
  entry_length :: "64 word"
  entry_type :: "32 word"

text \<open>
  The globals of pmm.c (\<open>global_pmm\<close>, \<open>pmm_initialized\<close>, \<open>memory_regions\<close>,
  \<open>memory_region_count\<close>) and of vmm.c (\<open>kernel_address_space\<close>,
  \<open>vmm_initialized\<close>, \<open>mapping_tracking\<close>), together with the memory they manage.
\<close>

record kstate =
  mem :: memory
  free_lists :: "nat \<Rightarrow> addr"
  memory_start :: "64 word"
  memory_end :: "64 word"
  total_pages :: "32 word"
  free_pages :: "32 word"
  reserved_pages :: "32 word"
  pmm_initialized :: bool
  memory_regions :: "nat \<Rightarrow> memory_map_entry"
  memory_region_count :: "32 word"
  kernel_root :: addr
  kernel_flags :: "32 word"
  vmm_initialized :: bool
  mapping_tracking :: addr

definition block_next :: "memory \<Rightarrow> addr \<Rightarrow> addr" where
  "block_next m b = m b"

definition block_order :: "memory \<Rightarrow> addr \<Rightarrow> 32 word" where
  "block_order m b = ucast (m (b + 8))"

definition set_block_next :: "memory \<Rightarrow> addr \<Rightarrow> addr \<Rightarrow> memory" where
  "set_block_next m b v = m(b := v)"

definition set_block_order :: "memory \<Rightarrow> addr \<Rightarrow> 32 word \<Rightarrow> memory" where
  "set_block_order m b k = m(b + 8 := (m (b + 8) AND 0xFFFFFFFF00000000) OR ucast k)"

text \<open>\<open>pages_from_order\<close>: \<open>1 << order\<close>, read as \<open>uint32_t\<close>; every caller has \<open>order \<le> 20\<close>.\<close>

definition pages_from_order :: "32 word \<Rightarrow> 32 word" where
  "pages_from_order order = push_bit (unat order) 1"

text \<open>
  \<open>order_from_pages\<close>: the loop shifts an \<open>int\<close>; a shift by 31 or more is undefined,
  which is the result \<open>None\<close>.
\<close>

function order_from_pages_loop :: "32 word \<Rightarrow> nat \<Rightarrow> 32 word option" where
  "order_from_pages_loop pages order =
     (if 31 \<le> order then None
      else if (push_bit order 1 :: 32 word) < pages then order_from_pages_loop pages (Suc order)
      else Some (of_nat order))"
  by pat_completeness auto
termination
  by (relation "measure (\<lambda>(pages, order). 31 - order)") auto

declare order_from_pages_loop.simps [simp del]

definition order_from_pages :: "32 word \<Rightarrow> 32 word option" where
  "order_from_pages pages = order_from_pages_loop pages 0"

text \<open>\<open>find_buddy\<close>: the product is computed in 32 bits and widened to a pointer.\<close>

definition find_buddy :: "addr \<Rightarrow> 32 word \<Rightarrow> addr" where
  "find_buddy block order = block XOR ucast (pages_from_order order * PAGE_SIZE)"

text \<open>\<open>pmm_init\<close>: \<open>memset\<close> of \<open>global_pmm\<close> clears every free-list head and counter.\<close>

definition pmm_init :: "kstate \<Rightarrow> kstate" where
  "pmm_init s =
     (if pmm_initialized s then s
      else s\<lparr>free_lists := (\<lambda>_. 0), memory_start := 0, memory_end := 0,
             total_pages := 0, free_pages := 0, reserved_pages := 0,
             pmm_initialized := True\<rparr>)"

text \<open>
  The loop of \<open>pmm_set_memory_map\<close> over \<open>map[i]\<close>, \<open>i < count\<close>; the caller's array is
  the list, \<open>count\<close> its length.  The sums are formed in 64 bits and stored in 32.
\<close>

fun set_memory_map_loop :: "memory_map_entry list \<Rightarrow> kstate \<Rightarrow> kstate" where
  "set_memory_map_loop [] s = s"
| "set_memory_map_loop (e # es) s =
     (if memory_region_count s < MAX_MEMORY_REGIONS then
        (if entry_type e = MEMORY_AVAILABLE then
           set_memory_map_loop es
             (s\<lparr>memory_regions := (memory_regions s)(unat (memory_region_count s) := e),
                memory_region_count := memory_region_count s + 1,
                total_pages := ucast (ucast (total_pages s) + entry_length e div 4096 :: 64 word),
                free_pages := ucast (ucast (free_pages s) + entry_length e div 4096 :: 64 word)\<rparr>)
         else set_memory_map_loop es s)
      else s)"

text \<open>
  With no Available entry the code reads \<open>memory_regions[memory_region_count - 1]\<close> at
  index \<open>UINT32_MAX\<close>, outside the array: the result \<open>None\<close>.
\<close>

definition pmm_set_memory_map :: "memory_map_entry list \<Rightarrow> kstate \<Rightarrow> kstate option" where
  "pmm_set_memory_map map_entries s0 =
     (let s1 = pmm_init s0;
          s2 = set_memory_map_loop map_entries (s1\<lparr>memory_region_count := 0\<rparr>)
      in if memory_region_count s2 = 0 then None
         else
           (let l = memory_regions s2 (unat (memory_region_count s2 - 1))
            in Some (s2\<lparr>memory_start := entry_base (memory_regions s2 0),
                        memory_end := entry_base l + entry_length l\<rparr>)))"

text \<open>\<open>validate_allocation\<close> of pmm.c; all arithmetic is \<open>uint32_t\<close>.\<close>

definition validate_allocation :: "kstate \<Rightarrow> 32 word \<Rightarrow> bool" where
  "validate_allocation s order =
     (let requested_pages = pages_from_order order;
          total_memory_gb = (total_pages s * PAGE_SIZE) div 1073741824;
          requested_gb = (requested_pages * PAGE_SIZE) div 1073741824
      in if requested_gb > total_memory_gb \<and> total_memory_gb > 0 then False
         else if requested_pages > total_pages s div 2 then False
         else if requested_pages > 104857600 div PAGE_SIZE then False
         else True)"

text \<open>The search of \<open>pmm_alloc_pages\<close> for the smallest order with a non-empty list.\<close>

function find_order :: "(nat \<Rightarrow> addr) \<Rightarrow> nat \<Rightarrow> nat" where
  "find_order fl current_order =
     (if current_order \<le> MAX_ORDER \<and> fl current_order = 0
      then find_order fl (Suc current_order) else current_order)"
  by pat_completeness auto
termination
  by (relation "measure (\<lambda>(fl, c). Suc MAX_ORDER - c)") auto

declare find_order.simps [simp del]

text \<open>
  The split loop of \<open>pmm_alloc_pages\<close>: the head of list \<open>current_order\<close> is popped and
  its upper half is pushed on the list below.
\<close>

function split_blocks :: "kstate \<Rightarrow> nat \<Rightarrow> nat \<Rightarrow> kstate" where
  "split_blocks s current_order order =
     (if current_order > order then
        (let block = free_lists s current_order;
             fl1 = (free_lists s)(current_order := block_next (mem s) block);
             buddy_order = current_order - 1;
             buddy = block + ucast (pages_from_order (of_nat buddy_order) * PAGE_SIZE);
             m1 = set_block_order (mem s) buddy (of_nat buddy_order);
             m2 = set_block_next m1 buddy (fl1 buddy_order);
             fl2 = fl1(buddy_order := buddy)
         in split_blocks (s\<lparr>mem := m2, free_lists := fl2\<rparr>) buddy_order order)
      else s)"
  by pat_completeness auto
termination
  by (relation "measure (\<lambda>(s, c, k). c)") auto

declare split_blocks.simps [simp del]

text \<open>\<open>pmm_alloc_pages\<close>: the result pointer (0 is \<open>NULL\<close>) and the new state.\<close>

definition pmm_alloc_pages :: "kstate \<Rightarrow> 32 word \<Rightarrow> addr \<times> kstate" where
  "pmm_alloc_pages s order =
     (if \<not> pmm_initialized s \<or> order > of_nat MAX_ORDER then (0, s)
      else if \<not> validate_allocation s order then (0, s)
      else
        (let current_order = find_order (free_lists s) (unat order)
         in if current_order > MAX_ORDER then (0, s)
            else
              (let s1 = split_blocks s current_order (unat order);
                   block = free_lists s1 (unat order)
               in (block,
                   s1\<lparr>free_lists := (free_lists s1)(unat order := block_next (mem s1) block),
                      free_pages := free_pages s1 - pages_from_order order\<rparr>))))"

definition pmm_alloc_page :: "kstate \<Rightarrow> addr \<times> kstate" where
  "pmm_alloc_page s = pmm_alloc_pages s 0"

text \<open>
  The inner loop of \<open>pmm_free_pages\<close>: \<open>prev_ptr\<close> starts at the list head
  (\<open>None\<close>) and moves to the \<open>next\<close> field of a block (\<open>Some b\<close>) until the cell it
  points at holds the buddy or \<open>NULL\<close>.  On a cyclic list that does not hold the buddy the
  loop does not end: the result \<open>None\<close>.
\<close>

partial_function (option) find_link :: "memory \<Rightarrow> addr \<Rightarrow> addr option \<Rightarrow> addr \<Rightarrow> addr option option" where
  "find_link m buddy prev_ptr cur =
     (if cur \<noteq> buddy \<and> cur \<noteq> 0 then find_link m buddy (Some cur) (block_next m cur)
      else Some prev_ptr)"

declare find_link.simps [code]

definition load_link :: "kstate \<Rightarrow> nat \<Rightarrow> addr option \<Rightarrow> addr" where
  "load_link s order prev_ptr =
     (case prev_ptr of None \<Rightarrow> free_lists s order | Some b \<Rightarrow> block_next (mem s) b)"

definition store_link :: "kstate \<Rightarrow> nat \<Rightarrow> addr option \<Rightarrow> addr \<Rightarrow> kstate" where
  "store_link s order prev_ptr v =
     (case prev_ptr of
        None \<Rightarrow> s\<lparr>free_lists := (free_lists s)(order := v)\<rparr>
      | Some b \<Rightarrow> s\<lparr>mem := set_block_next (mem s) b v\<rparr>)"

text \<open>
  One round of the coalescing loop of \<open>pmm_free_pages\<close> at \<open>order < MAX_ORDER\<close>:
  \<open>Some None\<close> is a \<open>break\<close>, \<open>Some (Some (s', block'))\<close> a merge, \<open>None\<close> a list
  search that does not end.
\<close>

definition coalesce_step :: "kstate \<Rightarrow> addr \<Rightarrow> nat \<Rightarrow> (kstate \<times> addr) option option" where
  "coalesce_step s block order =
     (let buddy = find_buddy block (of_nat order)
      in if block_order (mem s) buddy \<noteq> of_nat order then Some None
         else
           (case find_link (mem s) buddy None (free_lists s order) of
              None \<Rightarrow> None
            | Some prev_ptr \<Rightarrow>
                if load_link s order prev_ptr = buddy then
                  (let s1 = store_link s order prev_ptr (block_next (mem s) buddy);
                       block1 = (if block > buddy then buddy else block)
                   in Some (Some (s1\<lparr>mem := set_block_order (mem s1) block1 (of_nat (Suc order))\<rparr>,
                                  block1)))
                else Some None))"

text \<open>The coalescing loop: the final block and order with the state.\<close>

function coalesce :: "kstate \<Rightarrow> addr \<Rightarrow> nat \<Rightarrow> (kstate \<times> addr \<times> nat) option" where
  "coalesce s block order =
     (if order < MAX_ORDER then
        (case coalesce_step s block order of
           None \<Rightarrow> None
         | Some None \<Rightarrow> Some (s, block, order)
         | Some (Some (s1, block1)) \<Rightarrow> coalesce s1 block1 (Suc order))
      else Some (s, block, order))"
  by pat_completeness auto
termination
  by (relation "measure (\<lambda>(s, b, k). MAX_ORDER - k)") auto

declare coalesce.simps [simp del]

definition pmm_free_pages :: "kstate \<Rightarrow> addr \<Rightarrow> 32 word \<Rightarrow> kstate option" where
  "pmm_free_pages s pages order =
     (if \<not> pmm_initialized s \<or> order > of_nat MAX_ORDER \<or> pages = 0 then Some s
      else
        (case coalesce (s\<lparr>mem := set_block_order (mem s) pages order\<rparr>) pages (unat order) of
           None \<Rightarrow> None
         | Some (s1, block, k) \<Rightarrow>
             Some (s1\<lparr>mem := set_block_next (mem s1) block (free_lists s1 k),
                      free_lists := (free_lists s1)(k := block),
                      free_pages := free_pages s1 + pages_from_order (of_nat k)\<rparr>)))"

definition pmm_free_page :: "kstate \<Rightarrow> addr \<Rightarrow> kstate option" where
  "pmm_free_page s page = pmm_free_pages s page 0"

definition pmm_get_total_memory :: "kstate \<Rightarrow> 32 word" where
  "pmm_get_total_memory s = total_pages s * PAGE_SIZE"

definition pmm_get_free_memory :: "kstate \<Rightarrow> 32 word" where
  "pmm_get_free_memory s = free_pages s * PAGE_SIZE"

definition pmm_get_used_memory :: "kstate \<Rightarrow> 32 word" where
  "pmm_get_used_memory s = (total_pages s - free_pages s) * PAGE_SIZE"

text \<open>The statically initialised globals at boot, over a given memory.\<close>

definition boot_state :: "memory \<Rightarrow> kstate" where
  "boot_state m =
     \<lparr>mem = m, free_lists = (\<lambda>_. 0), memory_start = 0, memory_end = 0,
      total_pages = 0, free_pages = 0, reserved_pages = 0, pmm_initialized = False,
      memory_regions = (\<lambda>_. \<lparr>entry_base = 0, entry_length = 0, entry_type = 0\<rparr>),
      memory_region_count = 0, kernel_root = 0, kernel_flags = 0,
      vmm_initialized = False, mapping_tracking = 0\<rparr>"

section \<open>Page tables (page_tables.h, page_tables.c)\<close>

definition PTE_P :: "64 word" where
  "PTE_P = 1"

definition PTE_W :: "64 word" where
  "PTE_W = 2"

definition PTE_U :: "64 word" where
  "PTE_U = 4"

definition PTE_NX :: "64 word" where
  "PTE_NX = 0x8000000000000000"

definition PML4_INDEX :: "addr \<Rightarrow> 64 word" where
  "PML4_INDEX a = drop_bit 39 a AND 0x1ff"

definition PDPT_INDEX :: "addr \<Rightarrow> 64 word" where
  "PDPT_INDEX a = drop_bit 30 a AND 0x1ff"

definition PD_INDEX :: "addr \<Rightarrow> 64 word" where
  "PD_INDEX a = drop_bit 21 a AND 0x1ff"

definition PT_INDEX :: "addr \<Rightarrow> 64 word" where
  "PT_INDEX a = drop_bit 12 a AND 0x1ff"

definition PAGE_OFFSET :: "addr \<Rightarrow> 64 word" where
  "PAGE_OFFSET a = a AND 0xfff"

definition pte_present :: "64 word \<Rightarrow> bool" where
  "pte_present pte = (pte AND PTE_P \<noteq> 0)"

definition pte_physical_address :: "64 word \<Rightarrow> addr" where
  "pte_physical_address pte = pte AND 0x000ffffffffff000"

definition create_pte :: "addr \<Rightarrow> 64 word \<Rightarrow> 64 word" where
  "create_pte physical_addr flags = (physical_addr AND 0x000ffffffffff000) OR flags"

text \<open>\<open>&pt[i]\<close> for a table of 8-byte entries.\<close>

definition entry_at :: "addr \<Rightarrow> 64 word \<Rightarrow> addr" where
  "entry_at pt i = pt + 8 * i"

text \<open>The range check that opens \<open>walk_page_table\<close> and \<open>map_virtual_address\<close>.\<close>

definition non_canonical :: "addr \<Rightarrow> bool" where
  "non_canonical a = (a > 0x00007fffffffffff \<and> a < 0xffff800000000000)"

text \<open>\<open>walk_page_table\<close>: the address of the leaf entry, or 0 for \<open>NULL\<close>.\<close>

definition walk_page_table :: "memory \<Rightarrow> addr \<Rightarrow> addr \<Rightarrow> addr" where
  "walk_page_table m page_table_root virtual_addr =
     (if non_canonical virtual_addr then 0
      else
        (let pml4_entry = m (entry_at page_table_root (PML4_INDEX virtual_addr))
         in if \<not> pte_present pml4_entry then 0
            else
              (let pdpt_entry =
                     m (entry_at (pte_physical_address pml4_entry) (PDPT_INDEX virtual_addr))
               in if \<not> pte_present pdpt_entry then 0
                  else
                    (let pd_entry =
                           m (entry_at (pte_physical_address pdpt_entry) (PD_INDEX virtual_addr))
                     in if \<not> pte_present pd_entry then 0
                        else entry_at (pte_physical_address pd_entry) (PT_INDEX virtual_addr)))))"

text \<open>\<open>memset(p, 0, n)\<close> on the cells whose address lies in \<open>[p, p + n)\<close>.\<close>

definition memset_zero :: "memory \<Rightarrow> addr \<Rightarrow> 64 word \<Rightarrow> memory" where
  "memset_zero m p n = (\<lambda>x. if x - p < n then 0 else m x)"

definition create_page_table_page :: "kstate \<Rightarrow> addr \<times> kstate" where
  "create_page_table_page s =
     (let (page_table, s1) = pmm_alloc_page s
      in if page_table \<noteq> 0 then (page_table, s1\<lparr>mem := memset_zero (mem s1) page_table 4096\<rparr>)
         else (page_table, s1))"

text \<open>
  The statement \<open>if (!pte_present(*e)) *e = create_pte(create_page_table_page(), PTE_P | PTE_W)\<close>
  that \<open>map_virtual_address\<close> runs at each of the three interior levels.  The result of
  \<open>create_page_table_page\<close> is not checked: on \<open>NULL\<close> the entry becomes \<open>PTE_P | PTE_W\<close>
  with physical address 0.
\<close>

definition install_table :: "kstate \<Rightarrow> addr \<Rightarrow> kstate" where
  "install_table s e =
     (if \<not> pte_present (mem s e) then
        (let (page_table, s1) = create_page_table_page s
         in s1\<lparr>mem := (mem s1)(e := create_pte page_table (PTE_P OR PTE_W))\<rparr>)
      else s)"

text \<open>\<open>map_virtual_address\<close>: the \<open>int\<close> result (0 or -1) and the new state.\<close>

definition map_virtual_address :: "kstate \<Rightarrow> addr \<Rightarrow> addr \<Rightarrow> addr \<Rightarrow> 64 word \<Rightarrow> 32 word \<times> kstate" where
  "map_virtual_address s page_table_root virtual_addr physical_addr flags =
     (if non_canonical virtual_addr then (- 1, s)
      else
        (let pml4 = entry_at page_table_root (PML4_INDEX virtual_addr);
             s1 = install_table s pml4;
             pdpt_entry = entry_at (pte_physical_address (mem s1 pml4)) (PDPT_INDEX virtual_addr);
             s2 = install_table s1 pdpt_entry;
             pd_entry = entry_at (pte_physical_address (mem s2 pdpt_entry)) (PD_INDEX virtual_addr);
             s3 = install_table s2 pd_entry;
             pte = entry_at (pte_physical_address (mem s3 pd_entry)) (PT_INDEX virtual_addr)
         in if pte_present (mem s3 pte) then (- 1, s3)
            else (0, s3\<lparr>mem := (mem s3)(pte := create_pte physical_addr flags)\<rparr>)))"

definition unmap_virtual_address :: "kstate \<Rightarrow> addr \<Rightarrow> addr \<Rightarrow> kstate" where
  "unmap_virtual_address s page_table_root virtual_addr =
     (let pte = walk_page_table (mem s) page_table_root virtual_addr
      in if pte \<noteq> 0 then s\<lparr>mem := (mem s)(pte := 0)\<rparr> else s)"

definition get_physical_address :: "memory \<Rightarrow> addr \<Rightarrow> addr \<Rightarrow> addr" where
  "get_physical_address m page_table_root virtual_addr =
     (let pte = walk_page_table m page_table_root virtual_addr
      in if pte \<noteq> 0 \<and> pte_present (m pte)
         then pte_physical_address (m pte) + PAGE_OFFSET virtual_addr else 0)"

section \<open>Virtual memory manager (vmm.h, vmm.c)\<close>

definition VMM_READ :: "32 word" where
  "VMM_READ = 0x01"

definition VMM_WRITE :: "32 word" where
  "VMM_WRITE = 0x02"

definition VMM_EXEC :: "32 word" where
  "VMM_EXEC = 0x04"

definition VMM_USER :: "32 word" where
  "VMM_USER = 0x08"

definition VMM_KERNEL :: "32 word" where
  "VMM_KERNEL = 0x10"

text \<open>
  A \<open>vmm_address_space_t *\<close>: the global \<open>kernel_address_space\<close>, or a structure in
  memory whose first cell is \<open>page_table_root\<close>.
\<close>

datatype space_ptr = Kernel_space | Space_at addr

definition space_root :: "kstate \<Rightarrow> space_ptr \<Rightarrow> addr" where
  "space_root s space = (case space of Kernel_space \<Rightarrow> kernel_root s | Space_at a \<Rightarrow> mem s a)"

text \<open>
  \<open>validate_allocation\<close> of vmm.c: the \<open>size_t\<close> request is compared with \<open>uint32_t\<close>
  byte counts.
\<close>

definition vmm_validate_allocation :: "kstate \<Rightarrow> 64 word \<Rightarrow> bool" where
  "vmm_validate_allocation s requested_size =
     (let available_memory = pmm_get_free_memory s;
          total_system_memory = pmm_get_total_memory s
      in if requested_size > ucast available_memory then False
         else if requested_size > ucast (total_system_memory div 2) then False
         else if requested_size > 104857600 then False
         else True)"

definition vmm_can_allocate_memory :: "kstate \<Rightarrow> 64 word \<Rightarrow> bool" where
  "vmm_can_allocate_memory s requested_size = vmm_validate_allocation s requested_size"

definition vmm_init :: "kstate \<Rightarrow> kstate" where
  "vmm_init s =
     (if vmm_initialized s then s
      else
        (let (root, s1) = create_page_table_page s
         in s1\<lparr>kernel_root := root, kernel_flags := VMM_KERNEL, vmm_initialized := True\<rparr>))"

text \<open>
  The translation of VMM flags to \<open>page_flags\<close>.  \<open>page_flags\<close> is a \<open>uint32_t\<close>, so
  \<open>page_flags |= PTE_NX\<close> is computed in 64 bits and cut back to 32.
\<close>

definition page_flags_of :: "32 word \<Rightarrow> 32 word" where
  "page_flags_of flags =
     (let f0 = 0;
          f1 = (if flags AND VMM_READ \<noteq> 0 then f0 OR ucast PTE_P else f0);
          f2 = (if flags AND VMM_WRITE \<noteq> 0 then f1 OR ucast PTE_W else f1);
          f3 = (if flags AND VMM_USER \<noteq> 0 then f2 OR ucast PTE_U else f2)
      in if flags AND VMM_EXEC = 0 then ucast ((ucast f3 :: 64 word) OR PTE_NX) else f3)"

text \<open>The cleanup loop of \<open>vmm_alloc_memory\<close>: \<open>for (j = 0; j < i; j++)\<close>, from \<open>j\<close> on.\<close>

function vmm_cleanup_loop :: "kstate \<Rightarrow> space_ptr \<Rightarrow> nat \<Rightarrow> nat \<Rightarrow> kstate" where
  "vmm_cleanup_loop s space i j =
     (if j < i then
        vmm_cleanup_loop
          (unmap_virtual_address s (space_root s space)
             (0x100000 + ucast ((of_nat j :: 32 word) * PAGE_SIZE)))
          space i (Suc j)
      else s)"
  by pat_completeness auto
termination
  by (relation "measure (\<lambda>(s, space, i, j). i - j)") auto

declare vmm_cleanup_loop.simps [simp del]

text \<open>
  The mapping loop of \<open>vmm_alloc_memory\<close>, from page \<open>i\<close> on: \<open>None\<close> when every page
  is mapped, \<open>Some i\<close> when \<open>map_virtual_address\<close> fails at page \<open>i\<close>.
\<close>

function vmm_map_loop :: "kstate \<Rightarrow> space_ptr \<Rightarrow> addr \<Rightarrow> 32 word \<Rightarrow> nat \<Rightarrow> nat \<Rightarrow> addr \<Rightarrow> nat option \<times> kstate" where
  "vmm_map_loop s space memory flags page_count i virtual_addr =
     (if i < page_count then
        (let phys_page = memory + ucast ((of_nat i :: 32 word) * PAGE_SIZE);
             r = map_virtual_address s (space_root s space) virtual_addr phys_page
                   (ucast (page_flags_of flags))
         in if fst r \<noteq> 0 then (Some i, snd r)
            else vmm_map_loop (snd r) space memory flags page_count (Suc i)
                   (virtual_addr + ucast PAGE_SIZE))
      else (None, s))"
  by pat_completeness auto
termination
  by (relation "measure (\<lambda>(s, space, memory, flags, n, i, v). n - i)") auto

declare vmm_map_loop.simps [simp del]

text \<open>
  \<open>vmm_alloc_memory\<close>: the returned pointer and the new state; \<open>None\<close> when a call it makes
  does not return a defined result.
\<close>

definition vmm_alloc_memory :: "kstate \<Rightarrow> space_ptr \<Rightarrow> 64 word \<Rightarrow> 32 word \<Rightarrow> (addr \<times> kstate) option" where
  "vmm_alloc_memory s0 space nbytes flags =
     (let s = (if \<not> vmm_initialized s0 then vmm_init s0 else s0)
      in if \<not> vmm_validate_allocation s nbytes then Some (0, s)
         else
           (let aligned_size = (nbytes + ucast PAGE_SIZE - 1) AND NOT (ucast PAGE_SIZE - 1);
                page_count = (ucast (aligned_size div ucast PAGE_SIZE) :: 32 word)
            in case order_from_pages page_count of
                 None \<Rightarrow> None
               | Some order \<Rightarrow>
                   (let (memory, s1) = pmm_alloc_pages s order
                    in if memory = 0 then Some (0, s1)
                       else
                         (case vmm_map_loop s1 space memory flags (unat page_count) 0 0x100000 of
                            (None, s2) \<Rightarrow> Some (0x100000, s2)
                          | (Some i, s2) \<Rightarrow>
                              (case pmm_free_pages (vmm_cleanup_loop s2 space i 0) memory order of
                                 None \<Rightarrow> None
                               | Some s3 \<Rightarrow> Some (0, s3))))))"

definition vmm_alloc_kernel_memory :: "kstate \<Rightarrow> 64 word \<Rightarrow> (addr \<times> kstate) option" where
  "vmm_alloc_kernel_memory s nbytes =
     vmm_alloc_memory s Kernel_space nbytes (VMM_KERNEL OR VMM_READ OR VMM_WRITE)"

text \<open>
  The loop of \<open>vmm_free_memory\<close>.  \<open>find_physical_address\<close> returns \<open>NULL\<close> for every
  address, so the loop unmaps and frees nothing.
\<close>

definition find_physical_address :: "addr \<Rightarrow> addr" where
  "find_physical_address virtual_addr = 0"

function vmm_free_loop :: "kstate \<Rightarrow> space_ptr \<Rightarrow> nat \<Rightarrow> nat \<Rightarrow> addr \<Rightarrow> kstate option" where
  "vmm_free_loop s space page_count i virtual_addr =
     (if i < page_count then
        (let physical_addr = find_physical_address virtual_addr;
             s1 = unmap_virtual_address s (space_root s space) virtual_addr
         in case (if physical_addr \<noteq> 0 then pmm_free_page s1 physical_addr else Some s1) of
              None \<Rightarrow> None
            | Some s2 \<Rightarrow> vmm_free_loop s2 space page_count (Suc i) (virtual_addr + ucast PAGE_SIZE))
      else Some s)"
  by pat_completeness auto
termination
  by (relation "measure (\<lambda>(s, space, n, i, v). n - i)") auto

declare vmm_free_loop.simps [simp del]

definition vmm_free_memory :: "kstate \<Rightarrow> space_ptr \<Rightarrow> addr \<Rightarrow> 64 word \<Rightarrow> kstate option" where
  "vmm_free_memory s space addr nbytes =
     (if space = Space_at 0 \<or> addr = 0 then Some s
      else
        (let aligned_size = (nbytes + ucast PAGE_SIZE - 1) AND NOT (ucast PAGE_SIZE - 1);
             page_count = (ucast (aligned_size div ucast PAGE_SIZE) :: 32 word)
         in vmm_free_loop s space (unat page_count) 0 addr))"

definition vmm_free_kernel_memory :: "kstate \<Rightarrow> addr \<Rightarrow> kstate option" where
  "vmm_free_kernel_memory s memory =
     (if memory \<noteq> 0 then vmm_free_memory s Kernel_space memory (ucast PAGE_SIZE) else Some s)"

section \<open>Intrusive doubly-linked lists (common/list.h, list.c)\<close>

text \<open>
  A node pointer is \<open>Some p\<close>, or \<open>None\<close> for \<open>NULL\<close>.  The nodes live in a heap
  \<open>'p \<Rightarrow> 'p list_node\<close>; a node's \<open>data\<close> points to the structure that embeds it.
  An operation that dereferences \<open>NULL\<close> has no defined result: \<open>None\<close>.
\<close>

record 'p list_node =
  node_next :: "'p option"
  node_prev :: "'p option"
  node_data :: "'p option"

record 'p list_t =
  list_head :: "'p option"
  list_tail :: "'p option"
  list_count :: "32 word"

definition zero_node :: "'p list_node" where
  "zero_node = \<lparr>node_next = None, node_prev = None, node_data = None\<rparr>"

definition list_init :: "'p list_t" where
  "list_init = \<lparr>list_head = None, list_tail = None, list_count = 0\<rparr>"

definition list_is_empty :: "'p list_t \<Rightarrow> bool" where
  "list_is_empty l = (list_count l = 0)"

definition list_get_head :: "'p list_t \<Rightarrow> 'p option" where
  "list_get_head l = list_head l"

definition list_add_tail :: "'p list_t \<Rightarrow> ('p \<Rightarrow> 'p list_node) \<Rightarrow> 'p \<Rightarrow> ('p list_t \<times> ('p \<Rightarrow> 'p list_node)) option" where
  "list_add_tail l h n =
     (if list_is_empty l then
        Some (l\<lparr>list_head := Some n, list_tail := Some n, list_count := list_count l + 1\<rparr>,
              h(n := (h n)\<lparr>node_next := None, node_prev := None\<rparr>))
      else
        (case list_tail l of
           None \<Rightarrow> None
         | Some t \<Rightarrow>
             (let h1 = h(t := (h t)\<lparr>node_next := Some n\<rparr>);
                  h2 = h1(n := (h1 n)\<lparr>node_prev := list_tail l, node_next := None\<rparr>)
              in Some (l\<lparr>list_tail := Some n, list_count := list_count l + 1\<rparr>, h2))))"

definition list_remove :: "'p list_t \<Rightarrow> ('p \<Rightarrow> 'p list_node) \<Rightarrow> 'p option \<Rightarrow> 'p list_t \<times> ('p \<Rightarrow> 'p list_node)" where
  "list_remove l h node =
     (case node of
        None \<Rightarrow> (l, h)
      | Some n \<Rightarrow>
          if list_is_empty l then (l, h)
          else
            (let (l1, h1) =
                   (case node_prev (h n) of
                      Some p \<Rightarrow> (l, h(p := (h p)\<lparr>node_next := node_next (h n)\<rparr>))
                    | None \<Rightarrow> (l\<lparr>list_head := node_next (h n)\<rparr>, h));
                 (l2, h2) =
                   (case node_next (h1 n) of
                      Some x \<Rightarrow> (l1, h1(x := (h1 x)\<lparr>node_prev := node_prev (h1 n)\<rparr>))
                    | None \<Rightarrow> (l1\<lparr>list_tail := node_prev (h1 n)\<rparr>, h1))
             in (l2\<lparr>list_count := list_count l2 - 1\<rparr>, h2)))"

section \<open>Scheduler (gecko/scheduler.h, scheduler.c)\<close>

definition TASK_RUNNING :: "8 word" where
  "TASK_RUNNING = 0"

definition TASK_READY :: "8 word" where
  "TASK_READY = 1"

definition TASK_BLOCKED :: "8 word" where
  "TASK_BLOCKED = 2"

definition TASK_SLEEPING :: "8 word" where
  "TASK_SLEEPING = 3"

definition TASK_TERMINATED :: "8 word" where
  "TASK_TERMINATED = 4"

definition SCHED_FIFO :: "8 word" where
  "SCHED_FIFO = 0"

definition SCHED_RR :: "8 word" where
  "SCHED_RR = 1"

definition PRIORITY_LOW :: "8 word" where
  "PRIORITY_LOW = 0"

definition PRIORITY_NORMAL :: "8 word" where
  "PRIORITY_NORMAL = 1"

definition MAX_TASKS :: nat where
  "MAX_TASKS = 256"

definition DEFAULT_TIME_SLICE :: "32 word" where
  "DEFAULT_TIME_SLICE = 50"

text \<open>
  \<open>task_t\<close> without its two list nodes.  The \<open>task_list\<close> node of \<open>tasks[i]\<close> is the
  node \<open>i\<close> of the node heap of the scheduler state; \<open>scheduler_list\<close> is used by no
  function.
\<close>

record task_t =
  task_id :: "32 word"
  task_name :: string
  state :: "8 word"
  priority :: "8 word"
  policy :: "8 word"
  time_slice :: "32 word"
  time_remaining :: "32 word"
  kernel_stack :: addr
  stack_size :: "64 word"
  user_stack :: addr
  page_table :: addr
  creation_time :: "64 word"
  last_scheduled :: "64 word"
  total_cpu_time :: "64 word"
  task_function :: addr

definition zero_task :: task_t where
  "zero_task =
     \<lparr>task_id = 0, task_name = [], state = 0, priority = 0, policy = 0, time_slice = 0,
      time_remaining = 0, kernel_stack = 0, stack_size = 0, user_stack = 0, page_table = 0,
      creation_time = 0, last_scheduled = 0, total_cpu_time = 0, task_function = 0\<rparr>"

text \<open>The static variables of scheduler.c; a \<open>task_t *\<close> is the index of the slot.\<close>

record sched =
  tasks :: "nat \<Rightarrow> task_t"
  task_nodes :: "nat \<Rightarrow> nat list_node"
  ready_queue :: "nat list_t"
  blocked_queue :: "nat list_t"
  sleeping_queue :: "nat list_t"
  current_task :: "nat option"
  next_task_id :: "32 word"
  task_count :: "32 word"
  scheduler_running :: "8 word"
  system_uptime :: "64 word"
  last_schedule_time :: "64 word"

definition scheduler_init :: "sched \<Rightarrow> sched" where
  "scheduler_init s =
     s\<lparr>tasks := (\<lambda>_. zero_task), task_nodes := (\<lambda>_. zero_node),
       ready_queue := list_init, blocked_queue := list_init, sleeping_queue := list_init,
       current_task := None, next_task_id := 1, task_count := 0, scheduler_running := 0,
       system_uptime := 0, last_schedule_time := 0\<rparr>"

definition find_task_by_id :: "sched \<Rightarrow> 32 word \<Rightarrow> nat option" where
  "find_task_by_id s tid =
     find (\<lambda>i. task_id (tasks s i) = tid \<and> state (tasks s i) \<noteq> TASK_TERMINATED) [0..<MAX_TASKS]"

text \<open>
  The search ``find free task slot'' of \<open>scheduler_create_task\<close> and
  \<open>scheduler_create_thread\<close>: the first slot whose state is \<open>TASK_TERMINATED\<close>.
\<close>

definition find_free_slot :: "sched \<Rightarrow> nat option" where
  "find_free_slot s = find (\<lambda>i. state (tasks s i) = TASK_TERMINATED) [0..<MAX_TASKS]"

text \<open>
  The loop of \<open>select_next_task\<close> over the ready queue.  \<open>None\<close>: the loop meets a node
  whose \<open>data\<close> is \<open>NULL\<close>, or runs forever round a cycle of nodes with no ready task.
\<close>

partial_function (option) select_loop :: "sched \<Rightarrow> nat option \<Rightarrow> nat option option" where
  "select_loop s node =
     (case node of
        None \<Rightarrow> Some None
      | Some n \<Rightarrow>
          (case node_data (task_nodes s n) of
             None \<Rightarrow> None
           | Some t \<Rightarrow>
               if state (tasks s t) = TASK_READY then Some (Some t)
               else select_loop s (node_next (task_nodes s n))))"

declare select_loop.simps [code]

definition select_next_task :: "sched \<Rightarrow> nat option option" where
  "select_next_task s =
     (case select_loop s (list_get_head (ready_queue s)) of
        None \<Rightarrow> None
      | Some selected \<Rightarrow>
          Some (if selected = None \<and> current_task s \<noteq> None
                   \<and> state (tasks s (the (current_task s))) = TASK_RUNNING
                then current_task s else selected))"

text \<open>
  \<open>scheduler_create_task\<close>: the \<open>int\<close> result with the scheduler and memory-manager
  states.  The slot is filled in before the kernel stack is allocated.  \<open>name\<close> is the
  text of the C string; \<open>strncpy\<close> keeps its first 31 characters.
\<close>

definition scheduler_create_task :: "addr \<Rightarrow> string \<Rightarrow> 8 word \<Rightarrow> sched \<Rightarrow> kstate \<Rightarrow> (32 word \<times> sched \<times> kstate) option" where
  "scheduler_create_task fn name prio s k =
     (if task_count s \<ge> of_nat MAX_TASKS then Some (- 1, s, k)
      else
        (case find_free_slot s of
           None \<Rightarrow> Some (- 1, s, k)
         | Some task_index \<Rightarrow>
             (let task = zero_task\<lparr>task_id := next_task_id s, task_name := take 31 name,
                           state := TASK_READY, priority := prio, policy := SCHED_RR,
                           time_slice := DEFAULT_TIME_SLICE,
                           time_remaining := DEFAULT_TIME_SLICE, task_function := fn,
                           creation_time := system_uptime s, stack_size := 8192\<rparr>;
                  s1 = s\<lparr>tasks := (tasks s)(task_index := task),
                         task_nodes := (task_nodes s)(task_index := zero_node),
                         next_task_id := next_task_id s + 1\<rparr>
              in case vmm_alloc_kernel_memory k 8192 of
                   None \<Rightarrow> None
                 | Some (stack, k1) \<Rightarrow>
                     (let s2 = s1\<lparr>tasks := (tasks s1)
                                   (task_index := (tasks s1 task_index)\<lparr>kernel_stack := stack\<rparr>)\<rparr>
                      in if stack = 0 then Some (- 1, s2, k1)
                         else
                           (let h = (task_nodes s2)
                                      (task_index :=
                                         (task_nodes s2 task_index)\<lparr>node_data := Some task_index\<rparr>)
                            in case list_add_tail (ready_queue s2) h task_index of
                                 None \<Rightarrow> None
                               | Some (q, h1) \<Rightarrow>
                                   Some (task_id (tasks s2 task_index),
                                         s2\<lparr>ready_queue := q, task_nodes := h1,
                                            task_count := task_count s2 + 1\<rparr>,
                                         k1))))))"

definition scheduler_create_thread :: "addr \<Rightarrow> 64 word \<Rightarrow> addr \<Rightarrow> sched \<Rightarrow> (32 word \<times> sched) option" where
  "scheduler_create_thread stack stack_sz fn s =
     (if task_count s \<ge> of_nat MAX_TASKS then Some (- 1, s)
      else
        (case find_free_slot s of
           None \<Rightarrow> Some (- 1, s)
         | Some task_index \<Rightarrow>
             (let task = zero_task\<lparr>task_id := next_task_id s, task_name := take 31 ''thread'',
                           state := TASK_READY, priority := PRIORITY_NORMAL, policy := SCHED_RR,
                           time_slice := DEFAULT_TIME_SLICE,
                           time_remaining := DEFAULT_TIME_SLICE, task_function := fn,
                           creation_time := system_uptime s, kernel_stack := stack,
                           stack_size := stack_sz\<rparr>;
                  s1 = s\<lparr>tasks := (tasks s)(task_index := task),
                         next_task_id := next_task_id s + 1\<rparr>;
                  h = (task_nodes s1)(task_index := zero_node\<lparr>node_data := Some task_index\<rparr>)
              in case list_add_tail (ready_queue s1) h task_index of
                   None \<Rightarrow> None
                 | Some (q, h1) \<Rightarrow>
                     Some (task_id task,
                           s1\<lparr>ready_queue := q, task_nodes := h1,
                              task_count := task_count s1 + 1\<rparr>))))"

text \<open>
  \<open>scheduler_start\<close>; \<open>idle_fn\<close> is the address of \<open>idle_task\<close>.  The result of
  \<open>scheduler_create_task\<close> is compared with 0 as an \<open>int\<close>.
\<close>

definition scheduler_start :: "addr \<Rightarrow> sched \<Rightarrow> kstate \<Rightarrow> (32 word \<times> sched \<times> kstate) option" where
  "scheduler_start idle_fn s k =
     (if scheduler_running s \<noteq> 0 then Some (0, s, k)
      else
        (case scheduler_create_task idle_fn ''idle'' PRIORITY_LOW s k of
           None \<Rightarrow> None
         | Some (idle_result, s1, k1) \<Rightarrow>
             if idle_result <s 0 then Some (- 1, s1, k1)
             else
               (let s2 = s1\<lparr>scheduler_running := 1\<rparr>
                in case select_next_task s2 of
                     None \<Rightarrow> None
                   | Some None \<Rightarrow> Some (0, s2, k1)
                   | Some (Some first_task) \<Rightarrow>
                       Some (0,
                             s2\<lparr>current_task := Some first_task,
                                tasks := (tasks s2)
                                  (first_task := (tasks s2 first_task)\<lparr>state := TASK_RUNNING\<rparr>)\<rparr>,
                             k1))))"

text \<open>
  \<open>list_remove(&ready_queue, &t->task_list); list_add_tail(&ready_queue, &t->task_list)\<close>,
  the pair of calls that \<open>scheduler_yield\<close> and \<open>scheduler_schedule\<close> both make.
\<close>

definition move_to_ready_tail :: "sched \<Rightarrow> nat \<Rightarrow> sched option" where
  "move_to_ready_tail s t =
     (let (q, h) = list_remove (ready_queue s) (task_nodes s) (Some t)
      in case list_add_tail q h t of
           None \<Rightarrow> None
         | Some (q1, h1) \<Rightarrow> Some (s\<lparr>ready_queue := q1, task_nodes := h1\<rparr>))"

text \<open>
  \<open>scheduler_schedule\<close>.  \<open>context_switch\<close> is an external assembly routine that saves
  and loads registers; it changes none of the scheduler's variables.
\<close>

definition scheduler_schedule :: "sched \<Rightarrow> sched option" where
  "scheduler_schedule s =
     (if scheduler_running s = 0 then Some s
      else
        (case select_next_task s of
           None \<Rightarrow> None
         | Some None \<Rightarrow> Some s
         | Some (Some new_task) \<Rightarrow>
             if Some new_task = current_task s then Some s
             else
               (let current_time = system_uptime s
                in case
                     (case current_task s of
                        None \<Rightarrow> Some s
                      | Some old_task \<Rightarrow>
                          if state (tasks s old_task) = TASK_RUNNING then
                            (let s1 = s\<lparr>tasks := (tasks s)
                                          (old_task := (tasks s old_task)
                                             \<lparr>total_cpu_time := total_cpu_time (tasks s old_task)
                                                  + (current_time - last_scheduled (tasks s old_task)),
                                              state := TASK_READY\<rparr>)\<rparr>
                             in if policy (tasks s1 old_task) = SCHED_RR
                                   \<and> time_remaining (tasks s1 old_task) > 0
                                then move_to_ready_tail s1 old_task else Some s1)
                          else Some s)
                   of
                     None \<Rightarrow> None
                   | Some s2 \<Rightarrow>
                       Some (s2\<lparr>current_task := Some new_task,
                                tasks := (tasks s2)
                                  (new_task := (tasks s2 new_task)
                                     \<lparr>state := TASK_RUNNING,
                                      time_remaining := time_slice (tasks s2 new_task),
                                      last_scheduled := current_time\<rparr>)\<rparr>))))"

definition scheduler_yield :: "sched \<Rightarrow> sched option" where
  "scheduler_yield s =
     (case current_task s of
        None \<Rightarrow> Some s
      | Some cur \<Rightarrow>
          if scheduler_running s = 0 then Some s
          else if time_remaining (tasks s cur) > 0 then
            (let s1 = s\<lparr>tasks := (tasks s)
                          (cur := (tasks s cur)\<lparr>time_remaining := 0, state := TASK_READY\<rparr>)\<rparr>
             in case (if policy (tasks s1 cur) = SCHED_RR then move_to_ready_tail s1 cur
                      else Some s1) of
                  None \<Rightarrow> None
                | Some s2 \<Rightarrow> scheduler_schedule s2)
          else Some s)"

text \<open>
  \<open>scheduler_terminate_task\<close>: the one \<open>task_list\<close> node is removed from each of the
  three queues in turn.
\<close>

definition scheduler_terminate_task :: "32 word \<Rightarrow> sched \<Rightarrow> kstate \<Rightarrow> (32 word \<times> sched \<times> kstate) option" where
  "scheduler_terminate_task tid s k =
     (case find_task_by_id s tid of
        None \<Rightarrow> Some (- 1, s, k)
      | Some t \<Rightarrow>
          (let s1 = s\<lparr>tasks := (tasks s)(t := (tasks s t)\<lparr>state := TASK_TERMINATED\<rparr>)\<rparr>;
               (q1, h1) = list_remove (ready_queue s1) (task_nodes s1) (Some t);
               (q2, h2) = list_remove (blocked_queue s1) h1 (Some t);
               (q3, h3) = list_remove (sleeping_queue s1) h2 (Some t);
               s2 = s1\<lparr>ready_queue := q1, blocked_queue := q2, sleeping_queue := q3,
                      task_nodes := h3\<rparr>
           in case (if kernel_stack (tasks s2 t) \<noteq> 0
                    then vmm_free_kernel_memory k (kernel_stack (tasks s2 t)) else Some k) of
                None \<Rightarrow> None
              | Some k1 \<Rightarrow> Some (0, s2\<lparr>task_count := task_count s2 - 1\<rparr>, k1)))"

text \<open>\<open>scheduler_block_task\<close>: the \<open>uint32_t\<close> reason is stored in the \<open>uint8_t\<close> state.\<close>

definition scheduler_block_task :: "32 word \<Rightarrow> sched \<Rightarrow> sched option" where
  "scheduler_block_task reason s =
     (case current_task s of
        None \<Rightarrow> Some s
      | Some cur \<Rightarrow>
          (let s1 = s\<lparr>tasks := (tasks s)(cur := (tasks s cur)\<lparr>state := ucast reason\<rparr>)\<rparr>;
               (q, h) = list_remove (ready_queue s1) (task_nodes s1) (Some cur)
           in case list_add_tail (blocked_queue s1) h cur of
                None \<Rightarrow> None
              | Some (b, h1) \<Rightarrow>
                  scheduler_schedule (s1\<lparr>ready_queue := q, blocked_queue := b, task_nodes := h1\<rparr>)))"

definition scheduler_unblock_task :: "32 word \<Rightarrow> sched \<Rightarrow> sched option" where
  "scheduler_unblock_task tid s =
     (case find_task_by_id s tid of
        None \<Rightarrow> Some s
      | Some t \<Rightarrow>
          if state (tasks s t) \<noteq> TASK_BLOCKED then Some s
          else
            (let s1 = s\<lparr>tasks := (tasks s)(t := (tasks s t)\<lparr>state := TASK_READY\<rparr>)\<rparr>;
                 (b, h) = list_remove (blocked_queue s1) (task_nodes s1) (Some t)
             in case list_add_tail (ready_queue s1) h t of
                  None \<Rightarrow> None
                | Some (q, h1) \<Rightarrow>
                    Some (s1\<lparr>blocked_queue := b, ready_queue := q, task_nodes := h1\<rparr>)))"

text \<open>
  The scheduler states that sequences of scheduler calls reach from \<open>scheduler_init\<close>;
  the memory manager may be in any state at each call.
\<close>

inductive reachable :: "sched \<Rightarrow> bool" where
  reach_init: "reachable (scheduler_init s0)"
| reach_create:
    "reachable s \<Longrightarrow> scheduler_create_task fn name prio s k = Some (r, s', k') \<Longrightarrow> reachable s'"
| reach_thread:
    "reachable s \<Longrightarrow> scheduler_create_thread stack stack_sz fn s = Some (r, s') \<Longrightarrow> reachable s'"
| reach_start:
    "reachable s \<Longrightarrow> scheduler_start idle_fn s k = Some (r, s', k') \<Longrightarrow> reachable s'"
| reach_yield: "reachable s \<Longrightarrow> scheduler_yield s = Some s' \<Longrightarrow> reachable s'"
| reach_schedule: "reachable s \<Longrightarrow> scheduler_schedule s = Some s' \<Longrightarrow> reachable s'"
| reach_block: "reachable s \<Longrightarrow> scheduler_block_task reason s = Some s' \<Longrightarrow> reachable s'"
| reach_unblock: "reachable s \<Longrightarrow> scheduler_unblock_task tid s = Some s' \<Longrightarrow> reachable s'"
| reach_terminate:
    "reachable s \<Longrightarrow> scheduler_terminate_task tid s k = Some (r, s', k') \<Longrightarrow> reachable s'"

section \<open>Inter-process communication (gecko/ipc.h, ipc.c)\<close>

text \<open>
  Messages and queues are structures in memory.  \<open>message_data\<close>, the array of 1024 bytes
  at offset 0 of an \<open>ipc_message_t\<close>, is kept where it is: in the bytes of physical
  memory at the address of the message, which is the frame that \<open>pmm_alloc_page\<close>
  returned and still holds what the allocator left there.  A byte is one lane of the
  64-bit cell at the address rounded down to 8 (x86-64 is little-endian).  The other
  fields are seen through typed heaps indexed by the address of the structure; the
  \<open>queue_link\<close> node of the message at \<open>a\<close> is the node \<open>a\<close> of the node heap.
\<close>

definition get_lane :: "64 word \<Rightarrow> nat \<Rightarrow> 8 word" where
  "get_lane w i = ucast (drop_bit (8 * i) w)"

definition set_lane :: "64 word \<Rightarrow> nat \<Rightarrow> 8 word \<Rightarrow> 64 word" where
  "set_lane w i v = (w AND NOT (push_bit (8 * i) 0xFF)) OR push_bit (8 * i) (ucast v)"

definition load_byte :: "memory \<Rightarrow> addr \<Rightarrow> 8 word" where
  "load_byte m a = get_lane (m (a AND NOT 7)) (unat (a AND 7))"

definition store_byte :: "memory \<Rightarrow> addr \<Rightarrow> 8 word \<Rightarrow> memory" where
  "store_byte m a v =
     (let c = a AND NOT 7 in m(c := set_lane (m c) (unat (a AND 7)) v))"

text \<open>\<open>memcpy\<close> into memory, and the bytes \<open>a\<close>, ..., \<open>a + n - 1\<close> of memory.\<close>

primrec store_bytes :: "memory \<Rightarrow> addr \<Rightarrow> 8 word list \<Rightarrow> memory" where
  "store_bytes m a [] = m"
| "store_bytes m a (b # bs) = store_bytes (store_byte m a b) (a + 1) bs"

definition load_bytes :: "memory \<Rightarrow> addr \<Rightarrow> nat \<Rightarrow> 8 word list" where
  "load_bytes m a n = map (\<lambda>j. load_byte m (a + of_nat j)) [0..<n]"

record ipc_message =
  message_length :: "32 word"
  message_type :: "32 word"
  message_flags :: "32 word"
  sender :: addr
  receiver :: addr
  timestamp :: "64 word"

record message_queue =
  message_list :: "addr list_t"
  owner :: addr
  max_messages :: "32 word"
  current_messages :: "32 word"

record service_entry =
  service_name :: string
  service_handler :: addr
  service_queue :: addr

definition zero_service :: service_entry where
  "zero_service = \<lparr>service_name = [], service_handler = 0, service_queue = 0\<rparr>"

record ipc_state =
  ipc_initialized :: bool
  system_message_queue :: message_queue
  registered_services :: "addr list_t"
  service_registry :: "nat \<Rightarrow> service_entry"
  service_count :: "32 word"
  queues :: "addr \<Rightarrow> message_queue"
  msgs :: "addr \<Rightarrow> ipc_message"
  links :: "addr \<Rightarrow> addr list_node"

definition ipc_init :: "ipc_state \<Rightarrow> ipc_state" where
  "ipc_init i =
     (if ipc_initialized i then i
      else
        i\<lparr>system_message_queue :=
            \<lparr>message_list = list_init, owner = 0, max_messages = 1024, current_messages = 0\<rparr>,
          registered_services := list_init,
          service_registry := (\<lambda>_. zero_service),
          service_count := 0,
          ipc_initialized := True\<rparr>)"

text \<open>
  \<open>create_message\<close>: \<open>None\<close> for \<open>NULL\<close>.  \<open>payload\<close> holds the bytes behind the \<open>data\<close>
  pointer (at least \<open>len\<close> of them), \<open>now\<close> is the value of \<open>gecko_get_uptime()\<close>.
  The frame is not cleared: \<open>memcpy\<close> and the terminating zero overwrite the first
  \<open>len + 1\<close> bytes of what the allocator left in it, the bytes after them stay.  With
  \<open>len = 1024\<close> the terminating zero falls on the first byte of \<open>message_length\<close>,
  which the next statement overwrites.
\<close>

definition create_message :: "ipc_state \<Rightarrow> kstate \<Rightarrow> 8 word list \<Rightarrow> 32 word \<Rightarrow> 32 word \<Rightarrow> 32 word \<Rightarrow> 64 word \<Rightarrow> addr option \<times> ipc_state \<times> kstate" where
  "create_message i k payload len type flags now =
     (if len > 1024 then (None, i, k)
      else
        (let (message, k1) = pmm_alloc_page k
         in if message = 0 then (None, i, k1)
            else
              (let copied = store_bytes (mem k1) message (take (unat len) payload);
                   terminated = (if unat len < 1024 then store_byte copied (message + ucast len) 0
                                 else copied);
                   m = (msgs i message)\<lparr>message_length := len,
                           message_type := type, message_flags := flags, timestamp := now\<rparr>
               in (Some message,
                   i\<lparr>msgs := (msgs i)(message := m),
                     links := (links i)
                       (message := \<lparr>node_next = None, node_prev = None,
                                    node_data = Some message\<rparr>)\<rparr>,
                   k1\<lparr>mem := terminated\<rparr>))))"

definition get_queue :: "ipc_state \<Rightarrow> addr \<Rightarrow> message_queue" where
  "get_queue i q = (if q = 0 then system_message_queue i else queues i q)"

definition set_queue :: "ipc_state \<Rightarrow> addr \<Rightarrow> message_queue \<Rightarrow> ipc_state" where
  "set_queue i q v =
     (if q = 0 then i\<lparr>system_message_queue := v\<rparr> else i\<lparr>queues := (queues i)(q := v)\<rparr>)"

text \<open>
  \<open>ipc_send_message\<close>: \<open>message\<close> is \<open>None\<close> for a \<open>NULL\<close> pointer, \<open>cur\<close> is the value
  of \<open>scheduler_get_current_task()\<close>.  The two branches on \<open>destination\<close> differ only in
  the queue they address.
\<close>

definition ipc_send_message :: "ipc_state \<Rightarrow> kstate \<Rightarrow> addr \<Rightarrow> 8 word list option \<Rightarrow> 32 word \<Rightarrow> 32 word \<Rightarrow> 32 word \<Rightarrow> addr \<Rightarrow> 64 word \<Rightarrow> (32 word \<times> ipc_state \<times> kstate) option" where
  "ipc_send_message i0 k destination message len type flags cur now =
     (let i = (if \<not> ipc_initialized i0 then ipc_init i0 else i0)
      in if message = None \<or> len = 0 \<or> len > 1024 then Some (- 1, i, k)
         else
           (case create_message i k (the message) len type flags now of
              (None, i1, k1) \<Rightarrow> Some (- 1, i1, k1)
            | (Some ipc_msg, i1, k1) \<Rightarrow>
                (let i2 = i1\<lparr>msgs := (msgs i1)
                               (ipc_msg := (msgs i1 ipc_msg)\<lparr>sender := cur, receiver := destination\<rparr>)\<rparr>;
                     dest_queue = get_queue i2 destination
                 in if current_messages dest_queue < max_messages dest_queue then
                      (case list_add_tail (message_list dest_queue) (links i2) ipc_msg of
                         None \<Rightarrow> None
                       | Some (l, h) \<Rightarrow>
                           Some (0,
                                 set_queue (i2\<lparr>links := h\<rparr>) destination
                                   (dest_queue\<lparr>message_list := l,
                                     current_messages := current_messages dest_queue + 1\<rparr>),
                                 k1))
                    else Some (- 1, i2, k1))))"

text \<open>
  What \<open>ipc_receive_message\<close> leaves behind its three out-pointers: the caller's buffer
  (all the bytes the caller owns behind \<open>buffer\<close>), \<open>*length\<close> and \<open>*message_type\<close>.
\<close>

record recv_out =
  out_buffer :: "8 word list"
  out_length :: "32 word"
  out_type :: "32 word"

text \<open>
  \<open>ipc_receive_message\<close>.  The wait loop counts \<open>wait_time\<close> up to \<open>timeout_ms\<close> and
  changes nothing else, so the timeout does not enter the result.  The copy writes
  \<open>message_length\<close> bytes and then a zero at \<open>buffer[message_length]\<close>: the test against
  \<open>*length\<close> leaves no room for that zero, and \<open>*length\<close> need not be the size of the
  buffer.  \<open>None\<close>: a \<open>NULL\<close> head or \<open>data\<close> pointer is dereferenced, the copy or its
  terminating zero is written past the end of the caller's buffer, or \<open>pmm_free_page\<close>
  does not return.
\<close>

definition ipc_receive_message :: "ipc_state \<Rightarrow> kstate \<Rightarrow> addr \<Rightarrow> recv_out \<Rightarrow> 32 word \<Rightarrow> (32 word \<times> recv_out \<times> ipc_state \<times> kstate) option" where
  "ipc_receive_message i0 k source out timeout_ms =
     (let i = (if \<not> ipc_initialized i0 then ipc_init i0 else i0);
          queue = get_queue i source
      in if list_is_empty (message_list queue) then Some (- 1, out, i, k)
         else
           (case list_get_head (message_list queue) of
              None \<Rightarrow> None
            | Some node \<Rightarrow>
                (case node_data (links i node) of
                   None \<Rightarrow> None
                 | Some message \<Rightarrow>
                     (let (l, h) = list_remove (message_list queue) (links i) (Some node);
                          i1 = set_queue (i\<lparr>links := h\<rparr>) source
                                 (queue\<lparr>message_list := l,
                                   current_messages := current_messages queue - 1\<rparr>);
                          m = msgs i1 message
                      in if out_length out < message_length m then Some (- 1, out, i1, k)
                         else
                           (let n = unat (message_length m)
                            in if length (out_buffer out) \<le> n then None
                               else
                                 (let out1 = \<lparr>out_buffer = load_bytes (mem k) message n @ 0
                                                   # drop (Suc n) (out_buffer out),
                                               out_length = message_length m,
                                               out_type = message_type m\<rparr>
                                  in case pmm_free_page k message of
                                       None \<Rightarrow> None
                                     | Some k1 \<Rightarrow> Some (0, out1, i1, k1)))))))"

section \<open>States used in the statements below\<close>

definition zero_memory :: memory where
  "zero_memory = (\<lambda>_. 0)"

text \<open>A memory map with one Available region of 64 MiB at 1 MiB.\<close>

definition one_region_map :: "memory_map_entry list" where
  "one_region_map =
     [\<lparr>entry_base = 0x100000, entry_length = 0x4000000, entry_type = MEMORY_AVAILABLE\<rparr>]"

text \<open>
  The frame count that the specification gives for a memory map: the frames of the
  Available regions (the first 32 of them, the size of \<open>memory_regions\<close>), in 32 bits.
\<close>

definition available_frames :: "memory_map_entry list \<Rightarrow> 32 word" where
  "available_frames regions =
     sum_list (map (\<lambda>e. ucast (entry_length e div 4096))
       (take 32 (filter (\<lambda>e. entry_type e = MEMORY_AVAILABLE) regions)))"

text \<open>The body of the loop of \<open>pmm_set_memory_map\<close> for an Available entry.\<close>

definition count_step :: "memory_map_entry \<Rightarrow> kstate \<Rightarrow> kstate" where
  "count_step e s =
     s\<lparr>memory_regions := (memory_regions s)(unat (memory_region_count s) := e),
       memory_region_count := memory_region_count s + 1,
       total_pages := ucast (ucast (total_pages s) + entry_length e div 4096 :: 64 word),
       free_pages := ucast (ucast (free_pages s) + entry_length e div 4096 :: 64 word)\<rparr>"

text \<open>
  A memory map with one Available region of 64 MiB at address 0, and four of its blocks
  handed to the allocator with \<open>pmm_free_pages\<close>, each of them once, naturally aligned and
  disjoint from the others: the two frames at 0x4000, the frame 0x1000, the two frames
  at 0x6000 and the two frames at 0x2000.
\<close>

definition low_memory_map :: "memory_map_entry list" where
  "low_memory_map =
     [\<lparr>entry_base = 0, entry_length = 0x4000000, entry_type = MEMORY_AVAILABLE\<rparr>]"

definition free_each :: "(addr \<times> 32 word) list \<Rightarrow> kstate \<Rightarrow> kstate option" where
  "free_each blocks s =
     fold (\<lambda>(b, k) r. Option.bind r (\<lambda>s'. pmm_free_pages s' b k)) blocks (Some s)"



text \<open>
  Two frames of memory at 0x2000, and the frame 0x3000 handed to the allocator with
  \<open>pmm_free_pages\<close>.
\<close>

definition half_memory_state :: kstate where
  "half_memory_state =
     the (pmm_free_pages
            (the (pmm_set_memory_map
                    [\<lparr>entry_base = 0x2000, entry_length = 0x2000,
                      entry_type = MEMORY_AVAILABLE\<rparr>]
                    (boot_state zero_memory)))
            0x3000 0)"

text \<open>
  The 64 MiB map, and the frames 0x100000, 0x102000 and 0x104000 handed to the allocator
  with \<open>pmm_free_pages\<close>.
\<close>

definition three_free_pages :: kstate where
  "three_free_pages =
     the (pmm_free_pages
       (the (pmm_free_pages
          (the (pmm_free_pages
             (the (pmm_set_memory_map one_region_map (boot_state zero_memory)))
             0x100000 0))
          0x102000 0))
       0x104000 0)"

text \<open>
  A memory whose page table at 0x1000 has entry 0 pointing back at the table itself, so
  that every level of a walk of the address 0x5000 is present.
\<close>

definition self_mapped :: kstate where
  "self_mapped = boot_state (zero_memory(0x1000 := 0x1003))"

text \<open>The statically initialised variables of ipc.c, over zeroed memory.\<close>

definition zero_queue :: message_queue where
  "zero_queue = \<lparr>message_list = list_init, owner = 0, max_messages = 0, current_messages = 0\<rparr>"

definition zero_message :: ipc_message where
  "zero_message =
     \<lparr>message_length = 0, message_type = 0, message_flags = 0, sender = 0, receiver = 0,
      timestamp = 0\<rparr>"

definition ipc_boot :: ipc_state where
  "ipc_boot =
     \<lparr>ipc_initialized = False, system_message_queue = zero_queue,
      registered_services = list_init, service_registry = (\<lambda>_. zero_service),
      service_count = 0, queues = (\<lambda>_. zero_queue), msgs = (\<lambda>_. zero_message),
      links = (\<lambda>_. zero_node)\<rparr>"

text \<open>
  The result of sending the three bytes ``m1!'' to the system queue, and of sending
  the two bytes ``m2'' after it; a caller's buffer of three bytes that announces room
  for two.
\<close>

definition sent_one :: "32 word \<times> ipc_state \<times> kstate" where
  "sent_one =
     the (ipc_send_message ipc_boot three_free_pages 0 (Some [0x6d, 0x31, 0x21]) 3 1 0 0 7)"

definition sent_two :: "32 word \<times> ipc_state \<times> kstate" where
  "sent_two =
     the (ipc_send_message (fst (snd sent_one)) (snd (snd sent_one)) 0 (Some [0x6d, 0x32]) 2 1
            0 0 8)"

definition small_buffer :: recv_out where
  "small_buffer = \<lparr>out_buffer = replicate 3 0, out_length = 2, out_type = 0\<rparr>"

text \<open>A caller's buffer of eight bytes that announces room for four.\<close>

definition roomy_buffer :: recv_out where
  "roomy_buffer = \<lparr>out_buffer = replicate 8 0, out_length = 4, out_type = 0\<rparr>"

text \<open>The statically initialised variables of scheduler.c.\<close>

definition sched_boot :: sched where
  "sched_boot =
     \<lparr>tasks = (\<lambda>_. zero_task), task_nodes = (\<lambda>_. zero_node), ready_queue = list_init,
      blocked_queue = list_init, sleeping_queue = list_init, current_task = None,
      next_task_id = 1, task_count = 0, scheduler_running = 0, system_uptime = 0,
      last_schedule_time = 0\<rparr>"

text \<open>The slots of the task table that are free for \<open>scheduler_create_task\<close>.\<close>

definition terminated_slots :: "sched \<Rightarrow> nat set" where
  "terminated_slots s = {i. i < MAX_TASKS \<and> state (tasks s i) = TASK_TERMINATED}"

text \<open>
  What holds of the scheduler's variables in every reachable state: no task was ever
  created, so the queues are empty and no task is current; \<open>task_count\<close> has been
  decremented once for each terminated slot.
\<close>

definition idle_inv :: "sched \<Rightarrow> bool" where
  "idle_inv s \<longleftrightarrow>
     ready_queue s = list_init \<and> blocked_queue s = list_init \<and> sleeping_queue s = list_init \<and>
     current_task s = None \<and> scheduler_running s = 0 \<and>
     (\<forall>i. kernel_stack (tasks s i) = 0) \<and>
     (\<forall>i. state (tasks s i) = TASK_RUNNING \<or> state (tasks s i) = TASK_TERMINATED) \<and>
     task_count s = - of_nat (card (terminated_slots s))"

section \<open>The scheduler: task creation and the queues\<close>

lemma list_remove_empty: "list_remove list_init h n = (list_init, h)"
  by (simp add: list_remove_def list_is_empty_def list_init_def split: option.splits)

lemma card_terminated_le: "card (terminated_slots s) \<le> 256"
proof -
  have "terminated_slots s \<subseteq> {..<256}"
    by (auto simp: terminated_slots_def MAX_TASKS_def)
  then have "card (terminated_slots s) \<le> card {..<256::nat}"
    by (intro card_mono) auto
  then show ?thesis by simp
qed

lemma neg_small_ge:
  assumes "0 < n" and "n \<le> 256"
  shows "(256 :: 32 word) \<le> - of_nat n"
proof -
  define m :: nat where "m = 2 ^ 32 - n"
  have mn: "m + n = 2 ^ 32" and lt: "m < 2 ^ 32" and ge: "256 \<le> m"
    using assms by (simp_all add: m_def)
  have "(of_nat m :: 32 word) + of_nat n = of_nat (m + n)" by simp
  also have "\<dots> = 0" by (simp only: mn) simp
  finally have "(of_nat n :: 32 word) = - of_nat m" by (simp only: add_eq_0_iff)
  then have e: "- of_nat n = (of_nat m :: 32 word)" by simp
  have "unat (of_nat m :: 32 word) = m" using lt by (simp add: unat_of_nat)
  then show ?thesis using ge by (simp add: word_le_nat_alt e)
qed

text \<open>
  Either no slot is free, or \<open>task_count\<close> has wrapped below zero and is at least
  \<open>MAX_TASKS\<close>: both ways the creation functions return -1 at once.
\<close>

lemma idle_no_room:
  assumes "idle_inv s"
  shows "find_free_slot s = None \<or> of_nat MAX_TASKS \<le> task_count s"
proof (cases "card (terminated_slots s) = 0")
  case True
  have "finite (terminated_slots s)" by (simp add: terminated_slots_def)
  with True have "terminated_slots s = {}" by simp
  then have "find_free_slot s = None"
    by (auto simp: find_free_slot_def find_None_iff terminated_slots_def)
  then show ?thesis by simp
next
  case False
  then have "(256 :: 32 word) \<le> task_count s"
    using assms card_terminated_le [of s] neg_small_ge [of "card (terminated_slots s)"]
    by (simp add: idle_inv_def)
  then show ?thesis by (simp add: MAX_TASKS_def)
qed

lemma create_fails: "idle_inv s \<Longrightarrow> scheduler_create_task fn name prio s k = Some (- 1, s, k)"
  using idle_no_room [of s] by (auto simp: scheduler_create_task_def)

lemma thread_fails: "idle_inv s \<Longrightarrow> scheduler_create_thread st sz fn s = Some (- 1, s)"
  using idle_no_room [of s] by (auto simp: scheduler_create_thread_def)

lemma start_fails: "idle_inv s \<Longrightarrow> scheduler_start idle s k = Some (- 1, s, k)"
  by (simp add: scheduler_start_def create_fails idle_inv_def word_sless_alt)

lemma schedule_idle: "idle_inv s \<Longrightarrow> scheduler_schedule s = Some s"
  by (simp add: scheduler_schedule_def idle_inv_def)

lemma yield_idle: "idle_inv s \<Longrightarrow> scheduler_yield s = Some s"
  by (simp add: scheduler_yield_def idle_inv_def)

lemma block_idle: "idle_inv s \<Longrightarrow> scheduler_block_task r s = Some s"
  by (simp add: scheduler_block_task_def idle_inv_def)

lemma unblock_idle:
  assumes i: "idle_inv s" and u: "scheduler_unblock_task tid s = Some s'"
  shows "idle_inv s'"
proof -
  have "state (tasks s t) \<noteq> TASK_BLOCKED" for t
  proof -
    from i have "state (tasks s t) = TASK_RUNNING \<or> state (tasks s t) = TASK_TERMINATED"
      by (simp add: idle_inv_def)
    then show ?thesis
      by (auto simp: TASK_BLOCKED_def TASK_RUNNING_def TASK_TERMINATED_def)
  qed
  then have "s' = s"
    using u by (simp add: scheduler_unblock_task_def split: option.splits)
  then show ?thesis using i by simp
qed

lemma terminate_idle:
  assumes i: "idle_inv s" and t: "scheduler_terminate_task tid s k = Some (r, s', k')"
  shows "idle_inv s'"
proof (cases "find_task_by_id s tid")
  case None
  with t show ?thesis using i by (simp add: scheduler_terminate_task_def)
next
  case (Some t0)
  then have lt: "t0 < MAX_TASKS" and nt: "state (tasks s t0) \<noteq> TASK_TERMINATED"
    by (auto simp: find_task_by_id_def find_Some_iff)
  have s': "s' = s\<lparr>tasks := (tasks s)(t0 := (tasks s t0)\<lparr>state := TASK_TERMINATED\<rparr>),
        ready_queue := list_init, blocked_queue := list_init, sleeping_queue := list_init,
        task_count := task_count s - 1\<rparr>"
    using t Some i
    by (auto simp add: scheduler_terminate_task_def idle_inv_def list_remove_empty Let_def)
  have ts: "terminated_slots s' = insert t0 (terminated_slots s)"
    using lt by (auto simp: s' terminated_slots_def)
  have "t0 \<notin> terminated_slots s" using nt by (simp add: terminated_slots_def)
  moreover have "finite (terminated_slots s)" by (simp add: terminated_slots_def)
  ultimately have "card (terminated_slots s') = Suc (card (terminated_slots s))"
    by (simp add: ts)
  then show ?thesis using i by (auto simp add: idle_inv_def s')
qed

lemma idle_inv_init: "idle_inv (scheduler_init s0)"
  by (simp add: idle_inv_def scheduler_init_def zero_task_def terminated_slots_def
      TASK_TERMINATED_def TASK_RUNNING_def)

lemma reachable_idle: "reachable s \<Longrightarrow> idle_inv s"
proof (induction rule: reachable.induct)
  case (reach_init s0)
  show ?case by (rule idle_inv_init)
next
  case (reach_create s fn name prio k r s' k')
  then show ?case by (simp add: create_fails)
next
  case (reach_thread s stack stack_sz fn r s')
  then show ?case by (simp add: thread_fails)
next
  case (reach_start s idle_fn k r s' k')
  then show ?case by (simp add: start_fails)
next
  case (reach_yield s s')
  then show ?case by (simp add: yield_idle)
next
  case (reach_schedule s s')
  then show ?case by (simp add: schedule_idle)
next
  case (reach_block s reason s')
  then show ?case by (simp add: block_idle)
next
  case (reach_unblock s tid s')
  then show ?case by (blast intro: unblock_idle)
next
  case (reach_terminate s tid k r s' k')
  then show ?case by (blast intro: terminate_idle)
qed

text \<open>
  No call creates a task: in every state reached from \<open>scheduler_init\<close> the three queues
  are empty and no task is current, and \<open>scheduler_create_task\<close> returns -1 from one of
  its first two tests, before the task slot is written and the stack is allocated.
\<close>

lemma reachable_has_no_task:
  assumes "reachable s"
  shows "ready_queue s = list_init \<and> blocked_queue s = list_init \<and> sleeping_queue s = list_init
       \<and> current_task s = None
       \<and> (find_free_slot s = None \<or> of_nat MAX_TASKS \<le> task_count s)
       \<and> scheduler_create_task fn name prio s k = Some (- 1, s, k)"
  using reachable_idle [OF assms] idle_no_room [of s] create_fails [of s fn name prio k]
  by (simp add: idle_inv_def)

text \<open>
  Claim C2.  On a scheduler reached from \<open>scheduler_init\<close> in which no slot has the
  state \<open>TASK_TERMINATED\<close> (every slot still has the state 0, \<open>TASK_RUNNING\<close>, that
  \<open>memset\<close> gave it), the search for a free slot finds none:
  \<open>scheduler_create_task\<close> and \<open>scheduler_create_thread\<close> return -1 and leave the
  scheduler as it was, and \<open>scheduler_start\<close> returns -1 because the idle task is not
  created.
\<close>

theorem fresh_scheduler_creates_no_task:
  assumes "reachable s" and "terminated_slots s = {}"
  shows "(\<forall>i<MAX_TASKS. state (tasks s i) = TASK_RUNNING)
       \<and> find_free_slot s = None
       \<and> scheduler_create_task fn name prio s k = Some (- 1, s, k)
       \<and> scheduler_create_thread stack stack_sz fn s = Some (- 1, s)
       \<and> scheduler_start idle_fn s k = Some (- 1, s, k)"
proof -
  have z: "\<forall>i<MAX_TASKS. state (tasks s i) = TASK_RUNNING"
  proof (intro allI impI)
    fix i assume "i < MAX_TASKS"
    with assms(2) have "state (tasks s i) \<noteq> TASK_TERMINATED"
      by (auto simp: terminated_slots_def)
    moreover from reachable_idle [OF assms(1)]
    have "state (tasks s i) = TASK_RUNNING \<or> state (tasks s i) = TASK_TERMINATED"
      by (simp add: idle_inv_def)
    ultimately show "state (tasks s i) = TASK_RUNNING" by simp
  qed
  have f: "find_free_slot s = None"
    using assms(2) by (auto simp: find_free_slot_def find_None_iff terminated_slots_def)
  have r: "scheduler_running s = 0"
    using reachable_idle [OF assms(1)] by (simp add: idle_inv_def)
  have c: "scheduler_create_task fn name prio s k = Some (- 1, s, k)" for fn name prio
    using f by (simp add: scheduler_create_task_def)
  have t: "scheduler_create_thread stack stack_sz fn s = Some (- 1, s)"
    using f by (simp add: scheduler_create_thread_def)
  have "scheduler_start idle_fn s k = Some (- 1, s, k)"
    using r c by (simp add: scheduler_start_def word_sless_alt)
  with c t f z show ?thesis by simp
qed

theorem fresh_scheduler_creates_no_task_witness:
  "reachable (scheduler_init sched_boot)
   \<and> terminated_slots (scheduler_init sched_boot) = {}
   \<and> state (tasks (scheduler_init sched_boot) 0) = TASK_RUNNING
   \<and> scheduler_create_task 0x400000 ''init'' PRIORITY_NORMAL (scheduler_init sched_boot)
        (boot_state zero_memory)
       = Some (- 1, scheduler_init sched_boot, boot_state zero_memory)
   \<and> scheduler_create_thread 0x800000 8192 0x400000 (scheduler_init sched_boot)
       = Some (- 1, scheduler_init sched_boot)
   \<and> scheduler_start 0x401000 (scheduler_init sched_boot) (boot_state zero_memory)
       = Some (- 1, scheduler_init sched_boot, boot_state zero_memory)"
proof -
  have h: "terminated_slots (scheduler_init sched_boot) = {}"
    by (simp add: terminated_slots_def scheduler_init_def zero_task_def TASK_TERMINATED_def)
  have st: "state (tasks (scheduler_init sched_boot) 0) = TASK_RUNNING"
    by (simp add: scheduler_init_def zero_task_def TASK_RUNNING_def)
  have r: "reachable (scheduler_init sched_boot)" by (rule reach_init)
  from fresh_scheduler_creates_no_task [OF r h, where fn = "0x400000" and name = "''init''"
      and prio = PRIORITY_NORMAL and k = "boot_state zero_memory" and stack = "0x800000"
      and stack_sz = 8192 and idle_fn = "0x401000"] r h st
  show ?thesis by simp
qed

section \<open>The frame allocator: memory map, allocation and free\<close>

lemma ucast_add_down:
  "(ucast (ucast (t :: 32 word) + (x :: 64 word)) :: 32 word) = t + ucast x"
proof -
  have "unat t < 2 ^ 32" using unsigned_less [of t] by simp
  then have "unat t mod 18446744073709551616 = unat t" by simp
  then have "unat (ucast (ucast t + x) :: 32 word) = (unat t + unat x) mod 2 ^ 32"
    by (simp add: unsigned_ucast_eq take_bit_eq_mod unat_word_ariths mod_mod_cancel)
  moreover have "unat (t + ucast x :: 32 word) = (unat t + unat x) mod 2 ^ 32"
    by (simp add: unsigned_ucast_eq take_bit_eq_mod unat_word_ariths mod_add_right_eq)
  ultimately show ?thesis by (simp add: word_unat_eq_iff)
qed

lemma loop_keeps:
  "free_lists (set_memory_map_loop es s) = free_lists s
   \<and> mem (set_memory_map_loop es s) = mem s
   \<and> pmm_initialized (set_memory_map_loop es s) = pmm_initialized s"
  by (induction es arbitrary: s) simp_all

lemma loop_Cons:
  "set_memory_map_loop (e # es) s =
     (if memory_region_count s < MAX_MEMORY_REGIONS then
        (if entry_type e = MEMORY_AVAILABLE then set_memory_map_loop es (count_step e s)
         else set_memory_map_loop es s)
      else s)"
  by (simp add: count_step_def)

declare set_memory_map_loop.simps(2) [simp del]

lemma count_step_simps:
  "memory_region_count (count_step e s) = memory_region_count s + 1"
  "total_pages (count_step e s) = total_pages s + ucast (entry_length e div 4096)"
  "free_pages (count_step e s) = free_pages s + ucast (entry_length e div 4096)"
  by (simp_all add: count_step_def ucast_add_down)

lemma loop_count:
  "unat (memory_region_count s) \<le> 32 \<Longrightarrow>
   unat (memory_region_count (set_memory_map_loop es s))
     = min 32 (unat (memory_region_count s)
               + length (filter (\<lambda>e. entry_type e = MEMORY_AVAILABLE) es))"
proof (induction es arbitrary: s)
  case Nil
  then show ?case by simp
next
  case (Cons e es)
  show ?case
  proof (cases "memory_region_count s < MAX_MEMORY_REGIONS")
    case True
    then have lt: "unat (memory_region_count s) < 32"
      by (simp add: MAX_MEMORY_REGIONS_def word_less_nat_alt)
    then have suc: "unat (memory_region_count s + 1) = Suc (unat (memory_region_count s))"
      by (simp add: unat_word_ariths)
    show ?thesis
    proof (cases "entry_type e = MEMORY_AVAILABLE")
      case a: True
      have "unat (memory_region_count (count_step e s)) \<le> 32"
        using lt suc by (simp add: count_step_simps)
      from Cons.IH [OF this] True a suc show ?thesis
        by (simp add: loop_Cons count_step_simps)
    next
      case False
      with Cons.IH [OF Cons.prems] True show ?thesis
        by (simp add: loop_Cons)
    qed
  next
    case False
    with Cons.prems have "unat (memory_region_count s) = 32"
      by (simp add: MAX_MEMORY_REGIONS_def word_less_nat_alt)
    with False show ?thesis by (simp add: loop_Cons)
  qed
qed

lemma loop_totals:
  "unat (memory_region_count s) \<le> 32 \<Longrightarrow>
   total_pages (set_memory_map_loop es s)
     = total_pages s + sum_list (map (\<lambda>e. ucast (entry_length e div 4096))
         (take (32 - unat (memory_region_count s))
            (filter (\<lambda>e. entry_type e = MEMORY_AVAILABLE) es)))
   \<and> free_pages (set_memory_map_loop es s)
     = free_pages s + sum_list (map (\<lambda>e. ucast (entry_length e div 4096))
         (take (32 - unat (memory_region_count s))
            (filter (\<lambda>e. entry_type e = MEMORY_AVAILABLE) es)))"
proof (induction es arbitrary: s)
  case Nil
  then show ?case by simp
next
  case (Cons e es)
  show ?case
  proof (cases "memory_region_count s < MAX_MEMORY_REGIONS")
    case True
    then have lt: "unat (memory_region_count s) < 32"
      by (simp add: MAX_MEMORY_REGIONS_def word_less_nat_alt)
    then have suc: "unat (memory_region_count s + 1) = Suc (unat (memory_region_count s))"
      by (simp add: unat_word_ariths)
    from lt have tk: "32 - unat (memory_region_count s) = Suc (31 - unat (memory_region_count s))"
      by simp
    show ?thesis
    proof (cases "entry_type e = MEMORY_AVAILABLE")
      case a: True
      have "unat (memory_region_count (count_step e s)) \<le> 32"
        using lt suc by (simp add: count_step_simps)
      from Cons.IH [OF this] True a suc tk show ?thesis
        by (simp add: loop_Cons count_step_simps add.assoc)
    next
      case False
      with Cons.IH [OF Cons.prems] True show ?thesis by (simp add: loop_Cons)
    qed
  next
    case False
    with Cons.prems have "unat (memory_region_count s) = 32"
      by (simp add: MAX_MEMORY_REGIONS_def word_less_nat_alt)
    with False show ?thesis by (simp add: loop_Cons)
  qed
qed

lemma find_order_empty:
  "find_order (\<lambda>_. 0) n = (if n \<le> MAX_ORDER then Suc MAX_ORDER else n)"
proof (induction "\<lambda>_::nat. (0::64 word)" n rule: find_order.induct)
  case (1 c)
  show ?case
  proof (cases "c \<le> MAX_ORDER")
    case True
    with 1 show ?thesis by (subst find_order.simps) auto
  next
    case False
    then show ?thesis by (subst find_order.simps) simp
  qed
qed

lemma alloc_empty: "free_lists s = (\<lambda>_. 0) \<Longrightarrow> pmm_alloc_pages s order = (0, s)"
  by (simp add: pmm_alloc_pages_def find_order_empty Let_def)

text \<open>
  Claim C1, as the code has it.  On an allocator that was not yet initialised, a memory
  map with an Available region makes \<open>pmm_set_memory_map\<close> count the frames of the
  Available regions into \<open>total_pages\<close> and \<open>free_pages\<close>; it puts no block on any
  free-list, so every following \<open>pmm_alloc_pages\<close> returns \<open>NULL\<close> and changes nothing.
\<close>

theorem set_memory_map_counts_but_seeds_nothing:
  assumes "\<not> pmm_initialized s0"
    and "filter (\<lambda>e. entry_type e = MEMORY_AVAILABLE) regions \<noteq> []"
  shows "\<exists>s. pmm_set_memory_map regions s0 = Some s
           \<and> total_pages s = available_frames regions
           \<and> free_pages s = available_frames regions
           \<and> (\<forall>k. free_lists s k = 0)
           \<and> (\<forall>order. pmm_alloc_pages s order = (0, s))"
proof -
  define s1 where "s1 = (pmm_init s0)\<lparr>memory_region_count := 0\<rparr>"
  define s2 where "s2 = set_memory_map_loop regions s1"
  have c0: "unat (memory_region_count s1) \<le> 32" by (simp add: s1_def)
  have "unat (memory_region_count s2)
          = min 32 (length (filter (\<lambda>e. entry_type e = MEMORY_AVAILABLE) regions))"
    using loop_count [OF c0, of regions] by (simp add: s2_def s1_def)
  with assms(2) have "unat (memory_region_count s2) \<noteq> 0" by simp
  then have nz: "memory_region_count s2 \<noteq> 0" by (auto simp: unat_eq_0)
  have fl: "free_lists s2 = (\<lambda>_. 0)"
    using assms(1) by (simp add: s2_def s1_def loop_keeps pmm_init_def)
  have z: "total_pages s1 = 0" "free_pages s1 = 0" "memory_region_count s1 = 0"
    using assms(1) by (simp_all add: s1_def pmm_init_def)
  have tot: "total_pages s2 = available_frames regions
           \<and> free_pages s2 = available_frames regions"
    using loop_totals [OF c0, of regions]
    by (simp add: s2_def [symmetric] z available_frames_def)
  define s where "s = s2\<lparr>memory_start := entry_base (memory_regions s2 0),
      memory_end := entry_base (memory_regions s2 (unat (memory_region_count s2 - 1)))
                    + entry_length (memory_regions s2 (unat (memory_region_count s2 - 1)))\<rparr>"
  have "pmm_set_memory_map regions s0 = Some s"
    using nz by (simp add: pmm_set_memory_map_def Let_def s_def s2_def s1_def)
  moreover have "\<forall>k. free_lists s k = 0" by (simp add: s_def fl)
  moreover have "\<forall>order. pmm_alloc_pages s order = (0, s)"
    by (simp add: alloc_empty s_def fl)
  moreover have "total_pages s = available_frames regions"
      "free_pages s = available_frames regions"
    using tot by (simp_all add: s_def)
  ultimately show ?thesis by blast
qed

lemma one_region_available:
  "filter (\<lambda>e. entry_type e = MEMORY_AVAILABLE) one_region_map \<noteq> []"
  by (simp add: one_region_map_def)

theorem set_memory_map_counts_but_seeds_nothing_witness:
  "\<not> pmm_initialized (boot_state zero_memory)
   \<and> filter (\<lambda>e. entry_type e = MEMORY_AVAILABLE) one_region_map \<noteq> []
   \<and> available_frames one_region_map = 16384
   \<and> (\<exists>s. pmm_set_memory_map one_region_map (boot_state zero_memory) = Some s
          \<and> total_pages s = 16384 \<and> free_pages s = 16384
          \<and> (\<forall>k. free_lists s k = 0)
          \<and> (\<forall>order. pmm_alloc_pages s order = (0, s)))"
proof -
  have i: "\<not> pmm_initialized (boot_state zero_memory)" by (simp add: boot_state_def)
  have n: "available_frames one_region_map = 16384"
    by (simp add: available_frames_def one_region_map_def)
  from set_memory_map_counts_but_seeds_nothing [OF i one_region_available] i
    one_region_available n
  show ?thesis by simp
qed

text \<open>
  The claim as stated fails: after the 64 MiB map, a request for one frame passes the
  admission check and still gets \<open>NULL\<close>, with nothing on free-list 0.
\<close>

theorem set_memory_map_does_not_seed:
  "pmm_set_memory_map one_region_map (boot_state zero_memory) \<noteq> None
   \<and> validate_allocation (the (pmm_set_memory_map one_region_map (boot_state zero_memory))) 0
   \<and> free_lists (the (pmm_set_memory_map one_region_map (boot_state zero_memory))) 0 = 0
   \<and> fst (pmm_alloc_pages
             (the (pmm_set_memory_map one_region_map (boot_state zero_memory))) 0) = 0"
  by (simp add: pmm_set_memory_map_def one_region_map_def boot_state_def zero_memory_def
      pmm_init_def loop_Cons count_step_def MAX_MEMORY_REGIONS_def Let_def alloc_empty
      validate_allocation_def pages_from_order_def PAGE_SIZE_def)

lemmas pmm_eval =
  pmm_alloc_pages_def validate_allocation_def pages_from_order_def PAGE_SIZE_def MAX_ORDER_def
  pmm_free_pages_def coalesce_step_def find_buddy_def block_order_def block_next_def
  set_block_order_def set_block_next_def load_link_def store_link_def boot_state_def
  zero_memory_def Let_def find_order.simps split_blocks.simps coalesce.simps find_link.simps
  pmm_set_memory_map_def pmm_init_def loop_Cons count_step_def MAX_MEMORY_REGIONS_def
  MEMORY_AVAILABLE_def one_region_map_def



text \<open>
  How the two buddies come to lie on one list.  The buddy of the block \<open>2 ^ (k + 12)\<close> at
  order \<open>k\<close> is the address 0; the search of \<open>pmm_free_pages\<close> for a buddy ends at the
  \<open>NULL\<close> that terminates the list and takes it for the buddy, so the block is merged with
  the frame at address 0 and the list of the order it ends at is replaced by \<open>NULL\<close>, its
  old head saved in the \<open>next\<close> field at address 0.  The free of 0x1000 takes the block
  0x4000 off list 1 in this way, the free of 0x6000 then finds no buddy on the list, and
  the free of 0x2000 links 0x4000 behind 0x6000 again.
\<close>

lemma buddy_of_low_block_is_null:
  "find_buddy 0x1000 0 = 0 \<and> find_buddy 0x2000 1 = 0 \<and> find_buddy 0x4000 2 = 0"
  by (simp add: find_buddy_def pages_from_order_def PAGE_SIZE_def)

lemma low_frames_step_by_step:
  "map_option (\<lambda>s. (free_lists s 1, free_pages s))
     (Option.bind (pmm_set_memory_map low_memory_map (boot_state zero_memory))
        (free_each [(0x4000, 1)])) = Some (0x4000, 16386)
   \<and> map_option (\<lambda>s. (free_lists s 1, block_next (mem s) 0, free_pages s))
     (Option.bind (pmm_set_memory_map low_memory_map (boot_state zero_memory))
        (free_each [(0x4000, 1), (0x1000, 0)])) = Some (0, 0x4000, 16388)
   \<and> map_option (\<lambda>s. (free_lists s 1, block_next (mem s) 0x6000, free_pages s))
     (Option.bind (pmm_set_memory_map low_memory_map (boot_state zero_memory))
        (free_each [(0x4000, 1), (0x1000, 0), (0x6000, 1)])) = Some (0x6000, 0, 16390)"
  by (simp add: free_each_def low_memory_map_def pmm_eval)

text \<open>
  The same count is reached by plain calls: after the 64 MiB map, freeing the buddy
  frames 0x100000 and 0x101000 one after the other raises \<open>free_pages\<close> by three.
\<close>

lemma two_buddy_frees_count_three:
  "free_pages (the (pmm_set_memory_map one_region_map (boot_state zero_memory))) = 16384
   \<and> map_option free_pages
        (pmm_free_pages
           (the (pmm_free_pages
                   (the (pmm_set_memory_map one_region_map (boot_state zero_memory)))
                   0x100000 0))
           0x101000 0) = Some 16387"
  by (simp add: pmm_eval)

lemma split_counts:
  "free_pages (split_blocks s c k) = free_pages s \<and> total_pages (split_blocks s c k) = total_pages s
   \<and> pmm_initialized (split_blocks s c k) = pmm_initialized s"
proof (induction s c k rule: split_blocks.induct)
  case (1 s c k)
  show ?case
  proof (cases "k < c")
    case True
    with 1 show ?thesis by (subst (1 2 3) split_blocks.simps) (simp add: Let_def)
  next
    case False
    then show ?thesis by (subst (1 2 3) split_blocks.simps) simp
  qed
qed

lemma coalesce_step_counts:
  "coalesce_step s b k = Some (Some (s1, b1)) \<Longrightarrow>
     free_pages s1 = free_pages s \<and> total_pages s1 = total_pages s"
  by (auto simp: coalesce_step_def Let_def store_link_def split: if_splits option.splits)

lemma coalesce_counts:
  "coalesce s b k = Some (s', b', k') \<Longrightarrow>
     free_pages s' = free_pages s \<and> total_pages s' = total_pages s"
proof (induction s b k rule: coalesce.induct)
  case (1 s block order)
  show ?case
  proof (cases "order < MAX_ORDER")
    case True
    show ?thesis
    proof (cases "coalesce_step s block order")
      case None
      with True "1.prems" show ?thesis by (subst (asm) coalesce.simps) simp
    next
      case (Some r)
      show ?thesis
      proof (cases r)
        case None
        with Some True "1.prems" show ?thesis by (subst (asm) coalesce.simps) simp
      next
        case (Some p)
        obtain s1 b1 where p: "p = (s1, b1)" by (cases p)
        from \<open>coalesce_step s block order = Some r\<close> Some p
        have st: "coalesce_step s block order = Some (Some (s1, b1))" by simp
        from "1.prems" True st have "coalesce s1 b1 (Suc order) = Some (s', b', k')"
          by (subst (asm) coalesce.simps) simp
        from "1.IH" [OF True st refl refl this] coalesce_step_counts [OF st]
        show ?thesis by simp
      qed
    qed
  next
    case False
    with "1.prems" show ?thesis by (subst (asm) coalesce.simps) simp
  qed
qed

text \<open>
  When the coalescing loop of the free merges nothing (it ends at the order it started
  with), the pair of calls does restore the counters.
\<close>

lemma free_restores_without_merge:
  assumes a: "pmm_alloc_pages s order = (b, s1)" and nz: "b \<noteq> 0"
    and c: "coalesce (s1\<lparr>mem := set_block_order (mem s1) b order\<rparr>) b (unat order)
              = Some (s2, b2, unat order)"
  shows "map_option free_pages (pmm_free_pages s1 b order) = Some (free_pages s)
       \<and> map_option total_pages (pmm_free_pages s1 b order) = Some (total_pages s)"
proof -
  from a nz have i: "pmm_initialized s" and le: "\<not> order > of_nat MAX_ORDER"
    by (auto simp: pmm_alloc_pages_def split: if_splits)
  from a nz i le have f1: "free_pages s1 = free_pages s - pages_from_order order"
    and t1: "total_pages s1 = total_pages s" and i1: "pmm_initialized s1"
    by (auto simp: pmm_alloc_pages_def Let_def split_counts split: if_splits)
  from coalesce_counts [OF c] have "free_pages s2 = free_pages s1" "total_pages s2 = total_pages s1"
    by simp_all
  with f1 t1 i1 le nz c show ?thesis
    by (simp add: pmm_free_pages_def)
qed

lemma half_memory_fields:
  "total_pages half_memory_state = 2 \<and> free_pages half_memory_state = 3
   \<and> free_lists half_memory_state 0 = 0x3000 \<and> pmm_initialized half_memory_state"
  by (simp add: half_memory_state_def pmm_eval)

lemma split_total: "total_pages (split_blocks s c k) = total_pages s"
proof (induction s c k rule: split_blocks.induct)
  case (1 s c k)
  show ?case
  proof (cases "k < c")
    case True
    with 1 show ?thesis by (subst split_blocks.simps) (simp add: Let_def)
  next
    case False
    then show ?thesis by (subst split_blocks.simps) simp
  qed
qed

lemma alloc_total: "total_pages (snd (pmm_alloc_pages s order)) = total_pages s"
  by (simp add: pmm_alloc_pages_def Let_def split_total)

lemma vmm_init_total: "total_pages (vmm_init s) = total_pages s"
  using alloc_total [of s 0]
  by (auto simp add: vmm_init_def create_page_table_page_def pmm_alloc_page_def
      split: prod.splits)

text \<open>
  The claim as stated fails: with two frames of memory, a request for exactly one frame
  (half of the total) is served, and \<open>vmm_can_allocate_memory\<close> accepts exactly half of
  the total bytes.
\<close>

theorem exactly_half_is_admitted:
  "pages_from_order 0 = total_pages half_memory_state div 2
   \<and> fst (pmm_alloc_pages half_memory_state 0) = 0x3000
   \<and> vmm_can_allocate_memory half_memory_state
        (ucast (pmm_get_total_memory half_memory_state div 2))"
  by (simp add: half_memory_state_def pmm_eval vmm_can_allocate_memory_def
      vmm_validate_allocation_def pmm_get_total_memory_def pmm_get_free_memory_def)

text \<open>
  Claim C6, as the code has it.  The 50% rule rejects a request only when it is strictly
  larger than half of the total: then \<open>pmm_alloc_pages\<close> returns \<open>NULL\<close>,
  \<open>vmm_can_allocate_memory\<close> is false and \<open>vmm_alloc_memory\<close> returns \<open>NULL\<close>.  A
  request of exactly half passes the 50% rule; whether it is admitted is decided by the
  other rules alone.
\<close>

theorem only_more_than_half_is_rejected:
  "(total_pages s div 2 < pages_from_order order \<longrightarrow> pmm_alloc_pages s order = (0, s))
   \<and> (ucast (pmm_get_total_memory s div 2) < nbytes \<longrightarrow>
        \<not> vmm_can_allocate_memory s nbytes
        \<and> (\<exists>s'. vmm_alloc_memory s space nbytes flags = Some (0, s')))
   \<and> (pages_from_order order = total_pages s div 2 \<longrightarrow>
        validate_allocation s order =
          (\<not> ((total_pages s * PAGE_SIZE) div 1073741824
                  < (pages_from_order order * PAGE_SIZE) div 1073741824
               \<and> 0 < (total_pages s * PAGE_SIZE) div 1073741824)
           \<and> pages_from_order order \<le> 25600))
   \<and> (nbytes = ucast (pmm_get_total_memory s div 2) \<longrightarrow>
        vmm_can_allocate_memory s nbytes =
          (nbytes \<le> ucast (pmm_get_free_memory s) \<and> nbytes \<le> 104857600))"
proof -
  have a: "pmm_alloc_pages s order = (0, s)" if "total_pages s div 2 < pages_from_order order"
    using that by (simp add: pmm_alloc_pages_def validate_allocation_def Let_def)
  have b1: "\<not> vmm_can_allocate_memory s nbytes"
    if "ucast (pmm_get_total_memory s div 2) < nbytes"
    using that by (simp add: vmm_can_allocate_memory_def vmm_validate_allocation_def Let_def)
  have b2: "\<exists>s'. vmm_alloc_memory s space nbytes flags = Some (0, s')"
    if h: "ucast (pmm_get_total_memory s div 2) < nbytes"
  proof -
    have "\<not> vmm_validate_allocation (vmm_init s) nbytes"
      using h
      by (simp add: vmm_validate_allocation_def Let_def pmm_get_total_memory_def vmm_init_total)
    moreover have "\<not> vmm_validate_allocation s nbytes"
      using h by (simp add: vmm_validate_allocation_def Let_def)
    ultimately show ?thesis by (simp add: vmm_alloc_memory_def Let_def)
  qed
  have c: "validate_allocation s order =
          (\<not> ((total_pages s * PAGE_SIZE) div 1073741824
                  < (pages_from_order order * PAGE_SIZE) div 1073741824
               \<and> 0 < (total_pages s * PAGE_SIZE) div 1073741824)
           \<and> pages_from_order order \<le> 25600)"
    if "pages_from_order order = total_pages s div 2"
    using that by (auto simp add: validate_allocation_def Let_def PAGE_SIZE_def not_less)
  have d: "vmm_can_allocate_memory s nbytes =
          (nbytes \<le> ucast (pmm_get_free_memory s) \<and> nbytes \<le> 104857600)"
    if "nbytes = ucast (pmm_get_total_memory s div 2)"
    using that
    by (auto simp add: vmm_can_allocate_memory_def vmm_validate_allocation_def Let_def not_less)
  from a b1 b2 c d show ?thesis by blast
qed

theorem only_more_than_half_is_rejected_witness:
  "total_pages half_memory_state div 2 < pages_from_order 1
   \<and> pmm_alloc_pages half_memory_state 1 = (0, half_memory_state)
   \<and> ucast (pmm_get_total_memory half_memory_state div 2) < (8192 :: 64 word)
   \<and> \<not> vmm_can_allocate_memory half_memory_state 8192
   \<and> (\<exists>s'. vmm_alloc_memory half_memory_state Kernel_space 8192 3 = Some (0, s'))
   \<and> pages_from_order 0 = total_pages half_memory_state div 2
   \<and> validate_allocation half_memory_state 0
   \<and> (4096 :: 64 word) = ucast (pmm_get_total_memory half_memory_state div 2)
   \<and> vmm_can_allocate_memory half_memory_state 4096"
  using only_more_than_half_is_rejected [where s = half_memory_state and order = 1
      and nbytes = 8192 and space = Kernel_space and flags = 3]
    only_more_than_half_is_rejected [where s = half_memory_state and order = 0
      and nbytes = 4096 and space = Kernel_space and flags = 3]
    half_memory_fields
  by (simp add: pages_from_order_def pmm_get_total_memory_def pmm_get_free_memory_def
      PAGE_SIZE_def)

section \<open>Page tables: map, unmap and the walk\<close>

lemmas pt_eval =
  map_virtual_address_def install_table_def create_page_table_page_def pmm_alloc_page_def
  walk_page_table_def unmap_virtual_address_def get_physical_address_def non_canonical_def
  entry_at_def PML4_INDEX_def PDPT_INDEX_def PD_INDEX_def PT_INDEX_def pte_present_def
  pte_physical_address_def create_pte_def PTE_P_def PTE_W_def memset_zero_def

lemma unmap_clears:
  "get_physical_address (mem (unmap_virtual_address s root v)) root v = 0"
  by (auto simp: walk_page_table_def get_physical_address_def unmap_virtual_address_def
      Let_def pte_present_def)

lemma unmap_walk_zero:
  "walk_page_table (mem (unmap_virtual_address s root v)) root v = 0
   \<or> mem (unmap_virtual_address s root v)
        (walk_page_table (mem (unmap_virtual_address s root v)) root v) = 0"
  by (auto simp: walk_page_table_def unmap_virtual_address_def Let_def pte_present_def)

lemma install_present: "pte_present (mem s e) \<Longrightarrow> install_table s e = s"
  by (simp add: install_table_def)

text \<open>
  When the walk found a leaf entry before the map, the map installs no table, writes
  that entry, and the unmap clears the same entry again.
\<close>

lemma walk_before_map:
  assumes "map_virtual_address s root v p f = (0, s1)"
    and "walk_page_table (mem s) root v \<noteq> 0"
  shows "walk_page_table (mem (unmap_virtual_address s1 root v)) root v
           = walk_page_table (mem s) root v"
proof -
  let ?e4 = "entry_at root (PML4_INDEX v)"
  let ?e3 = "entry_at (pte_physical_address (mem s ?e4)) (PDPT_INDEX v)"
  let ?e2 = "entry_at (pte_physical_address (mem s ?e3)) (PD_INDEX v)"
  let ?w = "entry_at (pte_physical_address (mem s ?e2)) (PT_INDEX v)"
  from assms(2) have c: "\<not> non_canonical v" and p4: "pte_present (mem s ?e4)"
    and p3: "pte_present (mem s ?e3)" and p2: "pte_present (mem s ?e2)"
    and w: "walk_page_table (mem s) root v = ?w"
    by (auto simp: walk_page_table_def Let_def split: if_splits)
  from assms(1) c p4 p3 p2 have np: "\<not> pte_present (mem s ?w)"
    and s1: "s1 = s\<lparr>mem := (mem s)(?w := create_pte p f)\<rparr>"
    by (auto simp: map_virtual_address_def Let_def install_present split: if_splits)
  from np p4 p3 p2 have ne: "?e4 \<noteq> ?w" "?e3 \<noteq> ?w" "?e2 \<noteq> ?w" by auto
  have w1: "walk_page_table (mem s1) root v = ?w"
    using c p4 p3 p2 ne by (simp add: s1 walk_page_table_def Let_def)
  from assms(2) w have wn: "?w \<noteq> 0" by simp
  have "mem (unmap_virtual_address s1 root v) = (mem s)(?w := 0)"
    using w1 wn by (simp add: unmap_virtual_address_def Let_def s1)
  then show ?thesis
    using c p4 p3 p2 ne w by (simp add: walk_page_table_def Let_def)
qed

text \<open>
  The claim as stated fails: on an empty table at 0x200000 the walk of 0x400000 returns
  \<open>NULL\<close>; the map succeeds, allocating three interior tables, and after the unmap the
  walk returns the leaf entry at 0x100000 instead of \<open>NULL\<close>.
\<close>

theorem unmap_keeps_interior_tables:
  "walk_page_table (mem three_free_pages) 0x200000 0x400000 = 0
   \<and> fst (map_virtual_address three_free_pages 0x200000 0x400000 0x300000 3) = 0
   \<and> walk_page_table
        (mem (unmap_virtual_address
                (snd (map_virtual_address three_free_pages 0x200000 0x400000 0x300000 3))
                0x200000 0x400000))
        0x200000 0x400000 = 0x100000"
  by (simp add: three_free_pages_def pmm_eval pt_eval)

text \<open>
  Claim C7, as the code has it.  After a successful map, the unmap leaves the address
  untranslated: the walk returns \<open>NULL\<close> or a leaf entry that is zero, and
  \<open>get_physical_address\<close> returns \<open>NULL\<close>.  When the walk returned a leaf entry before
  the map, it returns that same entry afterwards; when it returned \<open>NULL\<close>, the interior
  tables the map created stay, and the walk need not return \<open>NULL\<close> again.
\<close>

theorem map_unmap_clears_leaf:
  assumes "map_virtual_address s root v p f = (0, s1)"
  shows "get_physical_address (mem (unmap_virtual_address s1 root v)) root v = 0
       \<and> (walk_page_table (mem (unmap_virtual_address s1 root v)) root v = 0
          \<or> mem (unmap_virtual_address s1 root v)
               (walk_page_table (mem (unmap_virtual_address s1 root v)) root v) = 0)
       \<and> (walk_page_table (mem s) root v \<noteq> 0 \<longrightarrow>
            walk_page_table (mem (unmap_virtual_address s1 root v)) root v
              = walk_page_table (mem s) root v)"
  using walk_before_map [OF assms] unmap_clears [of s1 root v] unmap_walk_zero [of s1 root v]
  by blast

theorem map_unmap_clears_leaf_witness:
  "map_virtual_address self_mapped 0x1000 0x5000 0x300000 3
     = (0, snd (map_virtual_address self_mapped 0x1000 0x5000 0x300000 3))
   \<and> walk_page_table (mem self_mapped) 0x1000 0x5000 = 0x1028
   \<and> get_physical_address
        (mem (snd (map_virtual_address self_mapped 0x1000 0x5000 0x300000 3)))
        0x1000 0x5000 = 0x300000
   \<and> get_physical_address
        (mem (unmap_virtual_address
                (snd (map_virtual_address self_mapped 0x1000 0x5000 0x300000 3))
                0x1000 0x5000))
        0x1000 0x5000 = 0
   \<and> walk_page_table
        (mem (unmap_virtual_address
                (snd (map_virtual_address self_mapped 0x1000 0x5000 0x300000 3))
                0x1000 0x5000))
        0x1000 0x5000 = 0x1028"
proof -
  have m: "map_virtual_address self_mapped 0x1000 0x5000 0x300000 3
             = (0, snd (map_virtual_address self_mapped 0x1000 0x5000 0x300000 3))"
    by (simp add: self_mapped_def boot_state_def zero_memory_def pt_eval Let_def)
  have w: "walk_page_table (mem self_mapped) 0x1000 0x5000 = 0x1028"
    by (simp add: self_mapped_def boot_state_def zero_memory_def pt_eval Let_def)
  have g: "get_physical_address
        (mem (snd (map_virtual_address self_mapped 0x1000 0x5000 0x300000 3)))
        0x1000 0x5000 = 0x300000"
    by (simp add: self_mapped_def boot_state_def zero_memory_def pt_eval Let_def PAGE_OFFSET_def)
  from map_unmap_clears_leaf [OF m] m w g show ?thesis by simp
qed

section \<open>Message passing: send and receive\<close>

lemma ipc_init_idem: "(if \<not> ipc_initialized i then ipc_init i else i) = ipc_init i"
  by (simp add: ipc_init_def)

lemma get_set_queue: "get_queue (set_queue i q v) q = v"
  by (simp add: get_queue_def set_queue_def)

lemma set_queue_msgs: "msgs (set_queue i q v) = msgs i" "links (set_queue i q v) = links i"
  by (simp_all add: set_queue_def)

lemma list_add_tail_ok:
  "list_is_empty l \<or> list_tail l \<noteq> None \<Longrightarrow>
   \<exists>l' h'. list_add_tail l h n = Some (l', h') \<and> list_tail l' = Some n
      \<and> node_data (h' n) = node_data (h n) \<and> list_count l' = list_count l + 1"
  by (cases "list_is_empty l"; cases "list_tail l") (simp_all add: list_add_tail_def Let_def)

text \<open>Bytes in memory: a store is read back, and leaves every other byte as it was.\<close>

lemma off_lt: "unat ((a :: addr) AND 7) < 8"
proof -
  have "a AND 7 \<le> 7" by (rule word_and_le1)
  then show ?thesis by (simp add: word_le_nat_alt)
qed

lemma ff_mask: "(0xFF :: 64 word) = mask 8"
  by (simp add: mask_eq_exp_minus_1)

lemma lane_same: "i < 8 \<Longrightarrow> get_lane (set_lane w i v) i = v"
  unfolding get_lane_def set_lane_def ff_mask
  by (rule bit_word_eqI) (auto simp add: bit_simps simp del: mask_numeral)

lemma lane_other: "i < 8 \<Longrightarrow> j < 8 \<Longrightarrow> i \<noteq> j \<Longrightarrow> get_lane (set_lane w i v) j = get_lane w j"
  unfolding get_lane_def set_lane_def ff_mask
  by (rule bit_word_eqI) (auto simp add: bit_simps simp del: mask_numeral dest: bit_imp_le_length)

lemma load_store_same: "load_byte (store_byte m a v) a = v"
  using off_lt [of a] by (simp add: load_byte_def store_byte_def Let_def lane_same)

lemma split_addr: "(a :: addr) = (a AND NOT 7) OR (a AND 7)"
  by (rule bit_word_eqI) (auto simp add: bit_simps)

lemma load_store_other:
  assumes "a \<noteq> b"
  shows "load_byte (store_byte m a v) b = load_byte m b"
proof (cases "a AND NOT 7 = b AND NOT 7")
  case False
  then show ?thesis by (simp add: load_byte_def store_byte_def Let_def)
next
  case True
  have "a AND 7 \<noteq> b AND 7"
  proof
    assume "a AND 7 = b AND 7"
    with True split_addr [of a] split_addr [of b] have "a = b" by simp
    with assms show False by simp
  qed
  then have ne: "unat (a AND 7) \<noteq> unat (b AND 7)" by (simp add: word_unat_eq_iff)
  show ?thesis
    using off_lt [of a] off_lt [of b] ne True
    by (simp add: load_byte_def store_byte_def Let_def lane_other)
qed

lemma store_bytes_other:
  "(\<forall>j<length bs. a + of_nat j \<noteq> b) \<Longrightarrow> load_byte (store_bytes m a bs) b = load_byte m b"
proof (induction bs arbitrary: m a)
  case Nil
  show ?case by simp
next
  case (Cons x xs)
  have "\<forall>j<length xs. a + 1 + of_nat j \<noteq> b"
  proof (intro allI impI)
    fix j assume "j < length xs"
    then have "Suc j < length (x # xs)" by simp
    with Cons.prems have "a + of_nat (Suc j) \<noteq> b" by blast
    then show "a + 1 + of_nat j \<noteq> b" by (simp add: algebra_simps)
  qed
  from Cons.IH [OF this]
  have "load_byte (store_bytes (store_byte m a x) (a + 1) xs) b = load_byte (store_byte m a x) b" .
  moreover have "a \<noteq> b" using Cons.prems by (auto dest: spec [of _ 0])
  ultimately show ?case by (simp add: load_store_other)
qed

lemma of_nat_neq_0_small: "0 < j \<Longrightarrow> j < 2 ^ 64 \<Longrightarrow> (of_nat j :: 64 word) \<noteq> 0"
  by (simp add: of_nat_0 unat_of_nat word_unat_eq_iff flip: unat_eq_0)

lemma load_bytes_Suc: "load_bytes m a (Suc n) = load_byte m a # load_bytes m (a + 1) n"
proof -
  have "[0..<Suc n] = 0 # map Suc [0..<n]"
    by (simp add: upt_conv_Cons map_Suc_upt del: upt_Suc)
  then show ?thesis
    by (simp add: load_bytes_def comp_def add.assoc del: upt_Suc)
qed

lemma load_store_bytes:
  "length bs < 2 ^ 64 \<Longrightarrow> load_bytes (store_bytes m a bs) a (length bs) = bs"
proof (induction bs arbitrary: m a)
  case Nil
  show ?case by (simp add: load_bytes_def)
next
  case (Cons x xs)
  have "\<forall>j<length xs. a + 1 + of_nat j \<noteq> a"
  proof (intro allI impI)
    fix j assume j: "j < length xs"
    have "(of_nat (Suc j) :: 64 word) \<noteq> 0"
      using j Cons.prems by (intro of_nat_neq_0_small) auto
    then show "a + 1 + of_nat j \<noteq> a" by (simp add: add.assoc)
  qed
  then have "load_byte (store_bytes (store_byte m a x) (a + 1) xs) a = x"
    by (simp add: store_bytes_other load_store_same)
  moreover have "load_bytes (store_bytes (store_byte m a x) (a + 1) xs) (a + 1) (length xs) = xs"
    using Cons.prems by (intro Cons.IH) simp
  ultimately show ?case by (simp add: load_bytes_Suc del: upt_Suc)
qed

lemmas ipc_eval =
  ipc_send_message_def ipc_receive_message_def create_message_def ipc_init_def ipc_boot_def
  get_queue_def set_queue_def list_add_tail_def list_remove_def list_is_empty_def
  list_init_def list_get_head_def zero_queue_def zero_message_def zero_node_def
  pmm_alloc_page_def pmm_free_page_def

lemma load_bytes_0: "load_bytes m a 0 = []"
  by (simp add: load_bytes_def)

lemma load_bytes_numeral:
  "load_bytes m a (numeral n) = load_byte m a # load_bytes m (a + 1) (pred_numeral n)"
  by (simp only: numeral_eq_Suc load_bytes_Suc)

lemmas byte_eval =
  load_byte_def store_byte_def get_lane_def set_lane_def

lemma get_queue_links: "get_queue (j\<lparr>links := ls\<rparr>) d = get_queue j d"
  by (simp add: get_queue_def)

lemma set_queue_init: "ipc_initialized (set_queue j d v) = ipc_initialized j"
  by (simp add: set_queue_def)

text \<open>
  The claim as stated fails: the system queue has room and the payload has 1024 bytes,
  but the allocator has no frame for the message and the send returns -1.
\<close>

theorem send_fails_without_a_free_frame:
  "map_option fst (ipc_send_message ipc_boot (boot_state zero_memory) 0 (Some (replicate 1024 0x41)) 1024 1 0 0 0) = Some (- 1)"
  by (simp add: ipc_send_message_def create_message_def pmm_alloc_page_def pmm_alloc_pages_def boot_state_def ipc_boot_def Let_def)

text \<open>
  Claim C8, as the code has it.  The call initialises the IPC system if it was not; for
  a destination queue that then has free capacity and whose list can take a node, a send
  of exactly 1024 bytes succeeds when \<open>pmm_alloc_page\<close> supplies a page \<open>p\<close> for the
  message: it returns 0, the 1024 bytes of \<open>message_data\<close> at \<open>p\<close> are the payload, the
  message is linked at the tail of the queue and the count of the queue goes up by one.
  When \<open>pmm_alloc_page\<close> returns \<open>NULL\<close> the send returns -1.  A send of 1025 bytes
  returns -1 and changes nothing but that initialisation.
\<close>

theorem send_at_the_size_limit:
  assumes alloc: "pmm_alloc_page k = (p, k1)"
    and cap: "current_messages (get_queue (ipc_init i) dest) < max_messages (get_queue (ipc_init i) dest)"
    and wf: "list_is_empty (message_list (get_queue (ipc_init i) dest))
             \<or> list_tail (message_list (get_queue (ipc_init i) dest)) \<noteq> None"
    and len: "length payload = 1024"
  shows "(p \<noteq> 0 \<longrightarrow>
           (\<exists>i'. ipc_send_message i k dest (Some payload) 1024 ty fl cur now
                    = Some (0, i', k1\<lparr>mem := store_bytes (mem k1) p payload\<rparr>)
              \<and> load_bytes (store_bytes (mem k1) p payload) p 1024 = payload
              \<and> message_length (msgs i' p) = 1024
              \<and> message_type (msgs i' p) = ty
              \<and> node_data (links i' p) = Some p
              \<and> list_tail (message_list (get_queue i' dest)) = Some p
              \<and> current_messages (get_queue i' dest)
                   = current_messages (get_queue (ipc_init i) dest) + 1))
       \<and> (p = 0 \<longrightarrow>
             ipc_send_message i k dest (Some payload) 1024 ty fl cur now = Some (- 1, ipc_init i, k1))
       \<and> ipc_send_message i k dest (Some payload') 1025 ty fl cur now = Some (- 1, ipc_init i, k)"
proof -
  let ?i = "ipc_init i"
  have big: "ipc_send_message i k dest (Some payload') 1025 ty fl cur now = Some (- 1, ?i, k)"
    by (simp add: ipc_send_message_def ipc_init_idem Let_def)
  have none: "ipc_send_message i k dest (Some payload) 1024 ty fl cur now = Some (- 1, ?i, k1)"
    if "p = 0"
    using that alloc by (simp add: ipc_send_message_def ipc_init_idem create_message_def Let_def)
  have some: "\<exists>i'. ipc_send_message i k dest (Some payload) 1024 ty fl cur now
                    = Some (0, i', k1\<lparr>mem := store_bytes (mem k1) p payload\<rparr>)
              \<and> load_bytes (store_bytes (mem k1) p payload) p 1024 = payload
              \<and> message_length (msgs i' p) = 1024
              \<and> message_type (msgs i' p) = ty
              \<and> node_data (links i' p) = Some p
              \<and> list_tail (message_list (get_queue i' dest)) = Some p
              \<and> current_messages (get_queue i' dest) = current_messages (get_queue ?i dest) + 1"
    if nn: "p \<noteq> 0"
  proof -
    define m where "m = (msgs ?i p)\<lparr>message_length := 1024, message_type := ty,
        message_flags := fl, timestamp := now\<rparr>"
    define i1 where "i1 = ?i\<lparr>msgs := (msgs ?i)(p := m),
        links := (links ?i)(p := \<lparr>node_next = None, node_prev = None, node_data = Some p\<rparr>)\<rparr>"
    define k2 where "k2 = k1\<lparr>mem := store_bytes (mem k1) p payload\<rparr>"
    have cm: "create_message ?i k payload 1024 ty fl now = (Some p, i1, k2)"
      using alloc nn len by (simp add: create_message_def Let_def m_def i1_def k2_def)
    define i2 where "i2 = i1\<lparr>msgs := (msgs i1)(p := (msgs i1 p)\<lparr>sender := cur, receiver := dest\<rparr>)\<rparr>"
    have q2: "get_queue i2 dest = get_queue ?i dest"
      by (simp add: get_queue_def i2_def i1_def)
    have "node_data (links i2 p) = Some p" by (simp add: i2_def i1_def)
    with list_add_tail_ok [OF wf, of "links i2" p]
    obtain l h where la: "list_add_tail (message_list (get_queue ?i dest)) (links i2) p = Some (l, h)"
        and lt: "list_tail l = Some p" and hp: "node_data (h p) = Some p"
      by auto
    define i3 where "i3 = set_queue (i2\<lparr>links := h\<rparr>) dest
        ((get_queue ?i dest)\<lparr>message_list := l,
           current_messages := current_messages (get_queue ?i dest) + 1\<rparr>)"
    have "ipc_send_message i k dest (Some payload) 1024 ty fl cur now = Some (0, i3, k2)"
      using cap
      by (simp add: ipc_send_message_def ipc_init_idem cm Let_def i2_def [symmetric] q2 la i3_def)
    moreover have "msgs i3 p = m\<lparr>sender := cur, receiver := dest\<rparr>" "links i3 = h"
      by (simp_all add: i3_def set_queue_msgs i2_def i1_def)
    moreover have "get_queue i3 dest = (get_queue ?i dest)\<lparr>message_list := l,
        current_messages := current_messages (get_queue ?i dest) + 1\<rparr>"
      by (simp add: i3_def get_set_queue)
    moreover have "load_bytes (store_bytes (mem k1) p payload) p 1024 = payload"
      using load_store_bytes [of payload "mem k1" p] len by simp
    ultimately show ?thesis
      using lt hp by (simp add: m_def k2_def)
  qed
  from big none some show ?thesis by blast
qed

lemma alloc_half: "pmm_alloc_page half_memory_state = (0x3000, snd (pmm_alloc_page half_memory_state))"
  by (simp add: pmm_alloc_page_def half_memory_state_def pmm_eval)

lemma alloc_none: "pmm_alloc_page (boot_state zero_memory) = (0, boot_state zero_memory)"
  by (simp add: pmm_alloc_page_def pmm_alloc_pages_def boot_state_def)

theorem send_at_the_size_limit_witness:
  "pmm_alloc_page half_memory_state = (0x3000, snd (pmm_alloc_page half_memory_state))
   \<and> pmm_alloc_page (boot_state zero_memory) = (0, boot_state zero_memory)
   \<and> \<not> ipc_initialized ipc_boot
   \<and> current_messages (get_queue (ipc_init ipc_boot) 0) < max_messages (get_queue (ipc_init ipc_boot) 0)
   \<and> list_is_empty (message_list (get_queue (ipc_init ipc_boot) 0))
   \<and> length (replicate 1024 (0x41 :: 8 word)) = 1024
   \<and> (\<exists>i'. ipc_send_message ipc_boot half_memory_state 0 (Some (replicate 1024 0x41)) 1024 1 0 0 7
              = Some (0, i', (snd (pmm_alloc_page half_memory_state))
                   \<lparr>mem := store_bytes (mem (snd (pmm_alloc_page half_memory_state))) 0x3000
                             (replicate 1024 0x41)\<rparr>)
           \<and> load_bytes (store_bytes (mem (snd (pmm_alloc_page half_memory_state))) 0x3000
                 (replicate 1024 0x41)) 0x3000 1024 = replicate 1024 0x41
           \<and> message_length (msgs i' 0x3000) = 1024
           \<and> message_type (msgs i' 0x3000) = 1
           \<and> node_data (links i' 0x3000) = Some 0x3000
           \<and> list_tail (message_list (get_queue i' 0)) = Some 0x3000
           \<and> current_messages (get_queue i' 0) = 1)
   \<and> ipc_send_message ipc_boot (boot_state zero_memory) 0 (Some (replicate 1024 0x41)) 1024 1 0 0 7
        = Some (- 1, ipc_init ipc_boot, boot_state zero_memory)
   \<and> ipc_send_message ipc_boot half_memory_state 0 (Some (replicate 1025 0x41)) 1025 1 0 0 7
        = Some (- 1, ipc_init ipc_boot, half_memory_state)"
proof -
  have u: "\<not> ipc_initialized ipc_boot" by (simp add: ipc_boot_def)
  have c: "current_messages (get_queue (ipc_init ipc_boot) 0) < max_messages (get_queue (ipc_init ipc_boot) 0)"
    and e: "list_is_empty (message_list (get_queue (ipc_init ipc_boot) 0))"
    and z: "current_messages (get_queue (ipc_init ipc_boot) 0) = 0"
    by (simp_all add: ipc_init_def ipc_boot_def get_queue_def list_is_empty_def list_init_def)
  have w: "list_is_empty (message_list (get_queue (ipc_init ipc_boot) 0))
     \<or> list_tail (message_list (get_queue (ipc_init ipc_boot) 0)) \<noteq> None"
    using e by simp
  have l: "length (replicate 1024 (0x41 :: 8 word)) = 1024" by simp
  from send_at_the_size_limit [OF alloc_half c w l, where ty = 1 and fl = 0 and cur = 0 and now = 7
      and payload' = "replicate 1025 0x41"]
    send_at_the_size_limit [OF alloc_none c w l, where ty = 1 and fl = 0 and cur = 0 and now = 7
      and payload' = "replicate 1025 0x41"]
    alloc_half alloc_none u c e l z
  show ?thesis by simp
qed

lemma sent_one_fields:
  "fst sent_one = 0"
  "list_head (message_list (system_message_queue (fst (snd sent_one)))) = Some 0x104000"
  "free_lists (snd (snd sent_one)) 0 = 0x102000"
  "mem (snd (snd sent_one)) 0x104000 = 0x21316d"
  by (simp_all add: sent_one_def three_free_pages_def ipc_eval pmm_eval byte_eval)

text \<open>
  A short message leaves the rest of its frame as the allocator left it: after a send of
  the one byte 0x41 the frame 0x104000 holds that byte, the terminating zero, and then the
  third and fourth byte of the \<open>next\<close> pointer 0x102000 that the free-list kept there.
\<close>

lemma short_message_keeps_frame_bytes:
  "map_option (\<lambda>(r, i, k). (r, load_bytes (mem k) 0x104000 4))
     (ipc_send_message ipc_boot three_free_pages 0 (Some [0x41]) 1 1 0 0 7)
   = Some (0, [0x41, 0, 0x10, 0])"
  by (simp add: three_free_pages_def ipc_eval pmm_eval byte_eval
      load_bytes_numeral load_bytes_Suc load_bytes_0)

text \<open>
  The claim as stated fails: a receive that times out on an empty queue, a receive into
  a buffer that is too small, a send to a full queue and a send of an oversized payload
  all return the same value, -1.
\<close>

theorem ipc_failures_return_the_same_value:
  "map_option fst (ipc_receive_message ipc_boot three_free_pages 0 small_buffer 100) = Some (- 1)
   \<and> map_option fst (ipc_receive_message (fst (snd sent_one)) (snd (snd sent_one)) 0 small_buffer 100) = Some (- 1)
   \<and> map_option fst (ipc_send_message ipc_boot three_free_pages 0x9000 (Some [0x6d, 0x31, 0x21]) 3 1 0 0 7) = Some (- 1)
   \<and> map_option fst (ipc_send_message ipc_boot three_free_pages 0 (Some (replicate 1025 0x41)) 1025 1 0 0 7) = Some (- 1)"
  by (simp add: sent_one_def small_buffer_def three_free_pages_def ipc_eval pmm_eval byte_eval)

text \<open>
  Claim C9, as the code has it.  Every failure of send and receive is reported by the
  one value -1: the empty queue after the wait, the buffer smaller than the head message,
  the oversized payload and the full queue.  A send that links its message and a receive
  that delivers one return 0.
\<close>

theorem ipc_failures_share_one_code:
  "(list_is_empty (message_list (get_queue (ipc_init i) src)) \<longrightarrow>
      ipc_receive_message i k src out t = Some (- 1, out, ipc_init i, k))
   \<and> (\<not> list_is_empty (message_list (get_queue (ipc_init i) src))
        \<and> list_head (message_list (get_queue (ipc_init i) src)) = Some n
        \<and> node_data (links (ipc_init i) n) = Some m
        \<and> out_length out < message_length (msgs (ipc_init i) m) \<longrightarrow>
      map_option fst (ipc_receive_message i k src out t) = Some (- 1))
   \<and> (1024 < len \<longrightarrow>
      ipc_send_message i k dest msg len ty fl cur now = Some (- 1, ipc_init i, k))
   \<and> (0 < len \<and> len \<le> 1024 \<and> pmm_alloc_page k = (p, k') \<and> p \<noteq> 0
        \<and> \<not> current_messages (get_queue (ipc_init i) dest) < max_messages (get_queue (ipc_init i) dest) \<longrightarrow>
      map_option fst (ipc_send_message i k dest (Some payload) len ty fl cur now) = Some (- 1))
   \<and> (0 < len \<and> len \<le> 1024 \<and> pmm_alloc_page k = (p, k') \<and> p \<noteq> 0
        \<and> current_messages (get_queue (ipc_init i) dest) < max_messages (get_queue (ipc_init i) dest)
        \<and> (list_is_empty (message_list (get_queue (ipc_init i) dest))
             \<or> list_tail (message_list (get_queue (ipc_init i) dest)) \<noteq> None) \<longrightarrow>
      map_option fst (ipc_send_message i k dest (Some payload) len ty fl cur now) = Some 0)
   \<and> (\<not> list_is_empty (message_list (get_queue (ipc_init i) src))
        \<and> list_head (message_list (get_queue (ipc_init i) src)) = Some n
        \<and> node_data (links (ipc_init i) n) = Some m
        \<and> message_length (msgs (ipc_init i) m) \<le> out_length out
        \<and> unat (message_length (msgs (ipc_init i) m)) < length (out_buffer out)
        \<and> pmm_free_page k m \<noteq> None \<longrightarrow>
      map_option fst (ipc_receive_message i k src out t) = Some 0)"
proof -
  have gq: "get_queue (j\<lparr>msgs := ms\<rparr>) dest = get_queue j dest"
      "get_queue (j\<lparr>links := ls\<rparr>) dest = get_queue j dest" for j ms ls
    by (simp_all add: get_queue_def)
  have a: "ipc_receive_message i k src out t = Some (- 1, out, ipc_init i, k)"
    if "list_is_empty (message_list (get_queue (ipc_init i) src))"
    using that by (simp add: ipc_receive_message_def ipc_init_idem Let_def)
  have b: "map_option fst (ipc_receive_message i k src out t) = Some (- 1)"
    if "\<not> list_is_empty (message_list (get_queue (ipc_init i) src))"
      "list_head (message_list (get_queue (ipc_init i) src)) = Some n"
      "node_data (links (ipc_init i) n) = Some m"
      "out_length out < message_length (msgs (ipc_init i) m)"
    using that
    by (simp add: ipc_receive_message_def ipc_init_idem Let_def list_get_head_def set_queue_msgs
        split: prod.splits)
  have c: "ipc_send_message i k dest msg len ty fl cur now = Some (- 1, ipc_init i, k)"
    if "1024 < len"
    using that by (simp add: ipc_send_message_def ipc_init_idem Let_def)
  have d: "map_option fst (ipc_send_message i k dest (Some payload) len ty fl cur now) = Some (- 1)"
    if "0 < len" "len \<le> 1024" "pmm_alloc_page k = (p, k')" "p \<noteq> 0"
      "\<not> current_messages (get_queue (ipc_init i) dest) < max_messages (get_queue (ipc_init i) dest)"
    using that gq
    by (simp add: ipc_send_message_def ipc_init_idem Let_def create_message_def)
  have e: "map_option fst (ipc_send_message i k dest (Some payload) len ty fl cur now) = Some 0"
    if "0 < len" "len \<le> 1024" "pmm_alloc_page k = (p, k')" "p \<noteq> 0"
      "current_messages (get_queue (ipc_init i) dest) < max_messages (get_queue (ipc_init i) dest)"
      "list_is_empty (message_list (get_queue (ipc_init i) dest))
         \<or> list_tail (message_list (get_queue (ipc_init i) dest)) \<noteq> None"
  proof -
    from list_add_tail_ok [OF that(6)]
    have "\<exists>l' h'. list_add_tail (message_list (get_queue (ipc_init i) dest)) h p = Some (l', h')" for h
      by blast
    then have nn: "list_add_tail (message_list (get_queue (ipc_init i) dest)) h p \<noteq> None" for h
      by (metis option.distinct(1))
    from that(1-5) show ?thesis
      by (auto simp add: ipc_send_message_def ipc_init_idem Let_def create_message_def gq nn
          split: option.splits)
  qed
  have f: "map_option fst (ipc_receive_message i k src out t) = Some 0"
    if "\<not> list_is_empty (message_list (get_queue (ipc_init i) src))"
      "list_head (message_list (get_queue (ipc_init i) src)) = Some n"
      "node_data (links (ipc_init i) n) = Some m"
      "message_length (msgs (ipc_init i) m) \<le> out_length out"
      "unat (message_length (msgs (ipc_init i) m)) < length (out_buffer out)"
      "pmm_free_page k m \<noteq> None"
  proof -
    from that(4) have "\<not> out_length out < message_length (msgs (ipc_init i) m)" by simp
    moreover from that(5) have "\<not> length (out_buffer out) \<le> unat (message_length (msgs (ipc_init i) m))"
      by simp
    ultimately show ?thesis
      using that(1-3,6)
      by (auto simp add: ipc_receive_message_def ipc_init_idem Let_def list_get_head_def
          set_queue_msgs split: prod.splits option.splits)
  qed
  from a b c d e f show ?thesis by blast
qed

lemma sent_one_queue:
  "\<not> list_is_empty (message_list (get_queue (ipc_init (fst (snd sent_one))) 0))
   \<and> list_head (message_list (get_queue (ipc_init (fst (snd sent_one))) 0)) = Some 0x104000
   \<and> node_data (links (ipc_init (fst (snd sent_one))) 0x104000) = Some 0x104000
   \<and> message_length (msgs (ipc_init (fst (snd sent_one))) 0x104000) = 3
   \<and> pmm_alloc_page (snd (snd sent_one)) = (0x102000, snd (pmm_alloc_page (snd (snd sent_one))))"
  by (simp add: sent_one_def three_free_pages_def ipc_eval pmm_eval byte_eval)

lemma sent_one_free: "pmm_free_page (snd (snd sent_one)) 0x104000 \<noteq> None"
  by (simp add: sent_one_def three_free_pages_def ipc_eval pmm_eval byte_eval)

lemma alloc_three:
  "pmm_alloc_page three_free_pages = (0x104000, snd (pmm_alloc_page three_free_pages))"
  by (simp add: three_free_pages_def pmm_alloc_page_def pmm_eval)

theorem ipc_failures_share_one_code_witness:
  "list_is_empty (message_list (get_queue (ipc_init ipc_boot) 0))
   \<and> ipc_receive_message ipc_boot three_free_pages 0 small_buffer 100
        = Some (- 1, small_buffer, ipc_init ipc_boot, three_free_pages)
   \<and> \<not> list_is_empty (message_list (get_queue (ipc_init (fst (snd sent_one))) 0))
   \<and> out_length small_buffer < message_length (msgs (ipc_init (fst (snd sent_one))) 0x104000)
   \<and> map_option fst (ipc_receive_message (fst (snd sent_one)) (snd (snd sent_one)) 0 small_buffer 100)
        = Some (- 1)
   \<and> (1024 :: 32 word) < 1025
   \<and> ipc_send_message ipc_boot three_free_pages 0 (Some (replicate 1025 0x41)) 1025 1 0 0 7
        = Some (- 1, ipc_init ipc_boot, three_free_pages)
   \<and> \<not> current_messages (get_queue (ipc_init (fst (snd sent_one))) 0x9000)
          < max_messages (get_queue (ipc_init (fst (snd sent_one))) 0x9000)
   \<and> map_option fst (ipc_send_message (fst (snd sent_one)) (snd (snd sent_one)) 0x9000
        (Some [0x6d, 0x32]) 2 1 0 0 8) = Some (- 1)
   \<and> current_messages (get_queue (ipc_init ipc_boot) 0) < max_messages (get_queue (ipc_init ipc_boot) 0)
   \<and> map_option fst (ipc_send_message ipc_boot three_free_pages 0 (Some [0x6d, 0x31, 0x21]) 3 1 0 0 7)
        = Some 0
   \<and> message_length (msgs (ipc_init (fst (snd sent_one))) 0x104000) \<le> out_length roomy_buffer
   \<and> unat (message_length (msgs (ipc_init (fst (snd sent_one))) 0x104000))
        < length (out_buffer roomy_buffer)
   \<and> pmm_free_page (snd (snd sent_one)) 0x104000 \<noteq> None
   \<and> map_option fst (ipc_receive_message (fst (snd sent_one)) (snd (snd sent_one)) 0 roomy_buffer 100)
        = Some 0"
proof -
  have e: "list_is_empty (message_list (get_queue (ipc_init ipc_boot) 0))"
    and c0: "current_messages (get_queue (ipc_init ipc_boot) 0) < max_messages (get_queue (ipc_init ipc_boot) 0)"
    by (simp_all add: ipc_eval)
  have f: "\<not> current_messages (get_queue (ipc_init (fst (snd sent_one))) 0x9000)
          < max_messages (get_queue (ipc_init (fst (snd sent_one))) 0x9000)"
    by (simp add: sent_one_def three_free_pages_def ipc_eval pmm_eval byte_eval)
  have s: "out_length small_buffer < message_length (msgs (ipc_init (fst (snd sent_one))) 0x104000)"
    using sent_one_queue by (simp add: small_buffer_def)
  have r: "message_length (msgs (ipc_init (fst (snd sent_one))) 0x104000) \<le> out_length roomy_buffer"
    "unat (message_length (msgs (ipc_init (fst (snd sent_one))) 0x104000))
        < length (out_buffer roomy_buffer)"
    using sent_one_queue by (simp_all add: roomy_buffer_def)
  from ipc_failures_share_one_code [where i = ipc_boot and src = 0 and k = three_free_pages and out = small_buffer
        and t = 100 and len = 1025 and dest = 0 and msg = "Some (replicate 1025 0x41)"
        and ty = 1 and fl = 0 and cur = 0 and now = 7]
    ipc_failures_share_one_code [where i = "fst (snd sent_one)" and src = 0 and k = "snd (snd sent_one)"
        and out = small_buffer and t = 100 and n = "0x104000" and m = "0x104000"
        and len = 2 and dest = "0x9000" and payload = "[0x6d, 0x32]" and p = "0x102000"
        and k' = "snd (pmm_alloc_page (snd (snd sent_one)))"
        and ty = 1 and fl = 0 and cur = 0 and now = 8]
    ipc_failures_share_one_code [where i = ipc_boot and k = three_free_pages and len = 3 and dest = 0
        and payload = "[0x6d, 0x31, 0x21]" and p = "0x104000"
        and k' = "snd (pmm_alloc_page three_free_pages)"
        and ty = 1 and fl = 0 and cur = 0 and now = 7]
    ipc_failures_share_one_code [where i = "fst (snd sent_one)" and src = 0 and k = "snd (snd sent_one)"
        and out = roomy_buffer and t = 100 and n = "0x104000" and m = "0x104000"]
    e c0 f s r sent_one_queue sent_one_free alloc_three
  show ?thesis by simp
qed

lemma list_remove_count:
  "\<not> list_is_empty l \<Longrightarrow> list_count (fst (list_remove l h (Some n))) = list_count l - 1"
  by (simp add: list_remove_def Let_def split: option.splits prod.splits)

text \<open>
  Claim C10.  When the head message is longer than the caller's buffer,
  \<open>ipc_receive_message\<close> returns -1 after it has unlinked the head and decremented
  \<open>current_messages\<close>; the buffer is untouched, the message is not freed (the allocator
  state, memory included, is unchanged) and not linked again.  When a second message
  follows the head, the next receive on the queue delivers that message: its bytes and
  the terminating zero, into a buffer that has room for them.
\<close>

theorem failed_receive_drops_the_head_message:
  assumes init: "ipc_initialized i"
    and ne: "\<not> list_is_empty (message_list (get_queue i src))"
    and hd: "list_head (message_list (get_queue i src)) = Some n"
    and d1: "node_data (links i n) = Some m"
    and small: "out_length out < message_length (msgs i m)"
  shows "\<exists>i1. ipc_receive_message i k src out t = Some (- 1, out, i1, k)
           \<and> msgs i1 = msgs i
           \<and> message_list (get_queue i1 src)
               = fst (list_remove (message_list (get_queue i src)) (links i) (Some n))
           \<and> list_count (message_list (get_queue i1 src))
               = list_count (message_list (get_queue i src)) - 1
           \<and> current_messages (get_queue i1 src) = current_messages (get_queue i src) - 1
           \<and> (node_prev (links i n) = None \<and> node_next (links i n) = Some n2
                \<and> node_data (links i n2) = Some m2
                \<and> list_count (message_list (get_queue i src)) \<noteq> 1
                \<and> message_length (msgs i m2) \<le> out_length out
                \<and> unat (message_length (msgs i m2)) < length (out_buffer out)
                \<and> pmm_free_page k m2 = Some k2 \<longrightarrow>
               list_head (message_list (get_queue i1 src)) = Some n2
               \<and> (\<exists>i2. ipc_receive_message i1 k src out t =
                     Some (0,
                           \<lparr>out_buffer =
                              load_bytes (mem k) m2 (unat (message_length (msgs i m2))) @ 0
                              # drop (Suc (unat (message_length (msgs i m2)))) (out_buffer out),
                            out_length = message_length (msgs i m2),
                            out_type = message_type (msgs i m2)\<rparr>,
                           i2, k2)))"
proof -
  let ?q = "get_queue i src"
  obtain l1 h1 where rm: "list_remove (message_list ?q) (links i) (Some n) = (l1, h1)"
    by (cases "list_remove (message_list ?q) (links i) (Some n)")
  have cnt: "list_count l1 = list_count (message_list ?q) - 1"
    using list_remove_count [OF ne, of "links i" n] by (simp add: rm)
  define i1 where "i1 = set_queue (i\<lparr>links := h1\<rparr>) src
      (?q\<lparr>message_list := l1, current_messages := current_messages ?q - 1\<rparr>)"
  have r1: "ipc_receive_message i k src out t = Some (- 1, out, i1, k)"
    using init ne hd d1 small
    by (simp add: ipc_receive_message_def Let_def list_get_head_def rm i1_def set_queue_msgs)
  have q1: "get_queue i1 src = ?q\<lparr>message_list := l1, current_messages := current_messages ?q - 1\<rparr>"
    by (simp add: i1_def get_set_queue)
  have m1: "msgs i1 = msgs i" and k1: "links i1 = h1" and in1: "ipc_initialized i1"
    using init by (simp_all add: i1_def set_queue_msgs set_queue_init)
  have next_one: "list_head l1 = Some n2
      \<and> (\<exists>i2. ipc_receive_message i1 k src out t =
                     Some (0,
                           \<lparr>out_buffer =
                              load_bytes (mem k) m2 (unat (message_length (msgs i m2))) @ 0
                              # drop (Suc (unat (message_length (msgs i m2)))) (out_buffer out),
                            out_length = message_length (msgs i m2),
                            out_type = message_type (msgs i m2)\<rparr>,
                           i2, k2))"
    if pv: "node_prev (links i n) = None" and nx: "node_next (links i n) = Some n2"
      and d2: "node_data (links i n2) = Some m2"
      and c1: "list_count (message_list ?q) \<noteq> 1"
      and fits: "message_length (msgs i m2) \<le> out_length out"
      and room: "unat (message_length (msgs i m2)) < length (out_buffer out)"
      and free: "pmm_free_page k m2 = Some k2"
  proof -
    have e: "l1 = (message_list ?q)\<lparr>list_head := Some n2,
          list_count := list_count (message_list ?q) - 1\<rparr>"
        "h1 = (links i)(n2 := (links i n2)\<lparr>node_prev := None\<rparr>)"
      using rm ne pv nx by (simp_all add: list_remove_def)
    have hl: "list_head l1 = Some n2" by (simp add: e)
    have ne1: "\<not> list_is_empty l1" using c1 cnt by (simp add: list_is_empty_def)
    have dd: "node_data (h1 n2) = Some m2" using d2 by (simp add: e)
    have nl: "\<not> out_length out < message_length (msgs i m2)" using fits by simp
    have nr: "\<not> length (out_buffer out) \<le> unat (message_length (msgs i m2))" using room by simp
    obtain l2 h2 where rm2: "list_remove l1 h1 (Some n2) = (l2, h2)"
      by (cases "list_remove l1 h1 (Some n2)")
    have "\<exists>i2. ipc_receive_message i1 k src out t =
                     Some (0,
                           \<lparr>out_buffer =
                              load_bytes (mem k) m2 (unat (message_length (msgs i m2))) @ 0
                              # drop (Suc (unat (message_length (msgs i m2)))) (out_buffer out),
                            out_length = message_length (msgs i m2),
                            out_type = message_type (msgs i m2)\<rparr>,
                           i2, k2)"
      using in1 ne1 dd nl nr free hl
      by (simp add: ipc_receive_message_def Let_def list_get_head_def q1 k1 rm2 set_queue_msgs m1)
    with hl show ?thesis by simp
  qed
  from r1 q1 m1 cnt rm next_one show ?thesis by auto
qed

text \<open>
  A message of exactly \<open>*length\<close> bytes passes the test of \<open>ipc_receive_message\<close>; when the
  caller's buffer has just those \<open>*length\<close> bytes, the terminating zero is written past
  its end.
\<close>

lemma receive_overruns_a_full_buffer:
  assumes "ipc_initialized i"
    and "\<not> list_is_empty (message_list (get_queue i src))"
    and "list_head (message_list (get_queue i src)) = Some n"
    and "node_data (links i n) = Some m"
    and "message_length (msgs i m) \<le> out_length out"
    and "length (out_buffer out) \<le> unat (message_length (msgs i m))"
  shows "ipc_receive_message i k src out t = None"
proof -
  from assms(5) have "\<not> out_length out < message_length (msgs i m)" by simp
  with assms(1-4,6) show ?thesis
    by (simp add: ipc_receive_message_def Let_def list_get_head_def set_queue_msgs
        split: prod.splits)
qed

lemma sent_two_fields:
  "ipc_initialized (fst (snd sent_two))"
  "\<not> list_is_empty (message_list (get_queue (fst (snd sent_two)) 0))"
  "list_head (message_list (get_queue (fst (snd sent_two)) 0)) = Some 0x104000"
  "node_prev (links (fst (snd sent_two)) 0x104000) = None"
  "node_next (links (fst (snd sent_two)) 0x104000) = Some 0x102000"
  "node_data (links (fst (snd sent_two)) 0x104000) = Some 0x104000"
  "node_data (links (fst (snd sent_two)) 0x102000) = Some 0x102000"
  "list_count (message_list (get_queue (fst (snd sent_two)) 0)) = 2"
  "current_messages (get_queue (fst (snd sent_two)) 0) = 2"
  "message_length (msgs (fst (snd sent_two)) 0x104000) = 3"
  "message_length (msgs (fst (snd sent_two)) 0x102000) = 2"
  "message_type (msgs (fst (snd sent_two)) 0x102000) = 1"
  "load_bytes (mem (snd (snd sent_two))) 0x102000 2 = [0x6d, 0x32]"
  by (simp_all add: sent_two_def sent_one_def three_free_pages_def ipc_eval pmm_eval byte_eval
      load_bytes_numeral load_bytes_Suc load_bytes_0)

lemma sent_two_free:
  "pmm_free_page (snd (snd sent_two)) 0x102000
     = Some (the (pmm_free_page (snd (snd sent_two)) 0x102000))"
  by (simp add: sent_two_def sent_one_def three_free_pages_def ipc_eval pmm_eval byte_eval)

theorem failed_receive_drops_the_head_message_witness:
  "\<not> list_is_empty (message_list (get_queue (fst (snd sent_two)) 0))
   \<and> list_head (message_list (get_queue (fst (snd sent_two)) 0)) = Some 0x104000
   \<and> node_next (links (fst (snd sent_two)) 0x104000) = Some 0x102000
   \<and> out_length small_buffer < message_length (msgs (fst (snd sent_two)) 0x104000)
   \<and> message_length (msgs (fst (snd sent_two)) 0x102000) \<le> out_length small_buffer
   \<and> unat (message_length (msgs (fst (snd sent_two)) 0x102000)) < length (out_buffer small_buffer)
   \<and> pmm_free_page (snd (snd sent_two)) 0x102000 \<noteq> None
   \<and> (\<exists>i1. ipc_receive_message (fst (snd sent_two)) (snd (snd sent_two)) 0 small_buffer 100
               = Some (- 1, small_buffer, i1, snd (snd sent_two))
           \<and> msgs i1 = msgs (fst (snd sent_two))
           \<and> list_head (message_list (get_queue i1 0)) = Some 0x102000
           \<and> list_count (message_list (get_queue i1 0)) = 1
           \<and> current_messages (get_queue i1 0) = 1
           \<and> (\<exists>i2. ipc_receive_message i1 (snd (snd sent_two)) 0 small_buffer 100 =
                 Some (0, \<lparr>out_buffer = [0x6d, 0x32, 0], out_length = 2, out_type = 1\<rparr>,
                       i2, the (pmm_free_page (snd (snd sent_two)) 0x102000))))"
proof -
  have s: "out_length small_buffer < message_length (msgs (fst (snd sent_two)) 0x104000)"
    and f: "message_length (msgs (fst (snd sent_two)) 0x102000) \<le> out_length small_buffer"
    and r: "unat (message_length (msgs (fst (snd sent_two)) 0x102000)) < length (out_buffer small_buffer)"
    and c: "list_count (message_list (get_queue (fst (snd sent_two)) 0)) \<noteq> 1"
    by (simp_all add: sent_two_fields small_buffer_def)
  have fr: "pmm_free_page (snd (snd sent_two)) 0x102000 \<noteq> None"
    using sent_two_free by (metis option.distinct(1))
  from failed_receive_drops_the_head_message [OF sent_two_fields(1,2,3,6) s, where ?k = "snd (snd sent_two)" and t = 100
      and ?n2.0 = "0x102000" and ?m2.0 = "0x102000"
      and ?k2.0 = "the (pmm_free_page (snd (snd sent_two)) 0x102000)"]
    sent_two_fields s f r c sent_two_free fr
  show ?thesis by (auto simp add: small_buffer_def)
qed

end
